theory Spec2Isabelle
  imports Main
begin

section \<open>Values exchanged with the HTTP layer\<close>

text \<open>
  The routers of \<^verbatim>\<open>src/api/routes/tx.ts\<close> and \<^verbatim>\<open>src/api/routes/burnchain.ts\<close> are
  embedded as functions from a request to the response sent and the list of data-store
  operations invoked, in the order of invocation. A string is a list of 8-bit characters,
  each standing for the code unit of that number (U+0000 to U+00FF).
\<close>

datatype json =
    JNum int
  | JStr string
  | JBool bool
  | JArr "json list"
  | JObj "(string \<times> json) list"

text \<open>A value of \<^verbatim>\<open>req.query\<close>: a string, an array of strings, or a nested object
  (carried as its \<^verbatim>\<open>JSON.stringify\<close> text).\<close>

datatype qval = QStr string | QArr "string list" | QObj string

text \<open>The operand of \<^verbatim>\<open>req.query.x ?? d\<close>: the query value, or the numeric default.\<close>

datatype pinput = PNum nat | PQuery qval

definition nullish :: "qval option \<Rightarrow> nat \<Rightarrow> pinput" where
  "nullish v d = (case v of None \<Rightarrow> PNum d | Some q \<Rightarrow> PQuery q)"

text \<open>An exception leaving a handler: a rejection of the request's input, or a plain
  \<^verbatim>\<open>Error\<close> with its message.\<close>

datatype thrown = ClientError string | Error string

text \<open>What a handler does with \<^verbatim>\<open>res\<close>: \<^verbatim>\<open>res.json(b)\<close> is \<open>Respond 200 b\<close>,
  \<^verbatim>\<open>res.status(n).json(b)\<close> is \<open>Respond n b\<close>, \<^verbatim>\<open>res.writeHead(n, hs)\<close> is
  \<open>WriteHead n hs\<close> and leaves the response open.\<close>

datatype response =
    Respond nat json
  | Redirect string
  | WriteHead nat "(string \<times> string) list"
  | Throws thrown

text \<open>The parts of \<^verbatim>\<open>req.query\<close> and \<^verbatim>\<open>req.params\<close> that the handlers read. The pagination,
  type and protocol parameters are taken as they come; the three address parameters are
  strings, as the handler's cast \<^verbatim>\<open>req.query[p] as string\<close> has them.\<close>

record request =
  limit_q :: "qval option"
  offset_q :: "qval option"
  type_q :: "qval option"
  sender_address_q :: "string option"
  recipient_address_q :: "string option"
  address_q :: "string option"
  event_limit_q :: "qval option"
  event_offset_q :: "qval option"
  protocol_q :: "qval option"
  tx_id_p :: string
  address_p :: string

section \<open>The data store as the routes see it\<close>

record paging =
  offset :: nat
  limit :: nat

record txListArgs = paging +
  txTypeFilter :: "string list"

record mempoolArgs = paging +
  senderAddress :: "string option"
  recipientAddress :: "string option"
  address :: "string option"

record rewardsArgs = paging +
  burnchainRecipient :: "string option"

record txQuery =
  txId :: string
  eventLimit :: "nat option"
  eventOffset :: "nat option"

record dbTx =
  tx_id :: string

record 'a listResult =
  results :: "'a list"
  total :: nat

record dbBurnchainReward =
  canonical :: bool
  burn_block_hash :: string
  burn_block_height :: int
  burn_amount :: int
  reward_recipient :: string
  reward_amount :: int
  reward_index :: int

record rewardsTotal =
  reward_recipient :: string
  reward_amount :: int

text \<open>The read operations of \<^verbatim>\<open>DataStore\<close> that the routes call; \<open>'m\<close> is the stored
  mempool transaction (\<^verbatim>\<open>DbMempoolTx\<close>).\<close>

record 'm dataStore =
  getTxList :: "txListArgs \<Rightarrow> dbTx listResult"
  getMempoolTxList :: "mempoolArgs \<Rightarrow> 'm listResult"
  getDroppedTxs :: "paging \<Rightarrow> 'm listResult"
  getBurnchainRewards :: "rewardsArgs \<Rightarrow> dbBurnchainReward list"
  getBurnchainRewardsTotal :: "string \<Rightarrow> rewardsTotal"

text \<open>What a handler can invoke on \<^verbatim>\<open>db\<close>, as entries of the call log: the six read
  operations, the event-emitter subscription of the stream route, and the mutating
  operations of the store that the spec names (\<^verbatim>\<open>appendBlock\<close>, \<^verbatim>\<open>appendMempoolTx\<close>,
  \<^verbatim>\<open>pruneMempoolTx\<close>, \<^verbatim>\<open>restoreMempoolTx\<close>, \<^verbatim>\<open>markDropped\<close>).\<close>

datatype storeCall =
    GetTxList txListArgs
  | GetMempoolTxList mempoolArgs
  | GetDroppedTxs paging
  | GetTxFromDataStore txQuery
  | GetBurnchainRewards rewardsArgs
  | GetBurnchainRewardsTotal string
  | AddListener string
  | RemoveListener string
  | AppendBlock string
  | AppendMempoolTx string
  | PruneMempoolTx string
  | RestoreMempoolTx string
  | MarkDropped string

fun isWriteCall :: "storeCall \<Rightarrow> bool" where
  "isWriteCall (AppendBlock _) = True"
| "isWriteCall (AppendMempoolTx _) = True"
| "isWriteCall (PruneMempoolTx _) = True"
| "isWriteCall (RestoreMempoolTx _) = True"
| "isWriteCall (MarkDropped _) = True"
| "isWriteCall _ = False"

fun isReadCall :: "storeCall \<Rightarrow> bool" where
  "isReadCall (GetTxList _) = True"
| "isReadCall (GetMempoolTxList _) = True"
| "isReadCall (GetDroppedTxs _) = True"
| "isReadCall (GetTxFromDataStore _) = True"
| "isReadCall (GetBurnchainRewards _) = True"
| "isReadCall (GetBurnchainRewardsTotal _) = True"
| "isReadCall _ = False"

text \<open>The stored chain state after a logged call, for any behaviour \<open>w\<close> of the mutating
  operations.\<close>

definition afterCall :: "(storeCall \<Rightarrow> 's \<Rightarrow> 's) \<Rightarrow> 's \<Rightarrow> storeCall \<Rightarrow> 's" where
  "afterCall w s c = (if isWriteCall c then w c s else s)"

definition afterCalls :: "(storeCall \<Rightarrow> 's \<Rightarrow> 's) \<Rightarrow> 's \<Rightarrow> storeCall list \<Rightarrow> 's" where
  "afterCalls w s cs = foldl (afterCall w) s cs"

section \<open>Imported helpers\<close>

text \<open>
  The functions the routers import from \<^verbatim>\<open>helpers\<close>, \<^verbatim>\<open>validate\<close> and
  \<^verbatim>\<open>controllers/db-controller\<close>, and the reading of a query value as a number inside
  \<^verbatim>\<open>pagination\<close> (\<open>readPagingQuery\<close>). Their sources are not part of the files at hand,
  so they are parameters of every route.
\<close>

record 'm helpers =
  readPagingQuery :: "qval \<Rightarrow> thrown + nat"
  parseTxTypeStrings :: "string list \<Rightarrow> thrown + string list"
  getTxFromDataStore :: "'m dataStore \<Rightarrow> txQuery \<Rightarrow> json option"
  parseDbMempoolTx :: "'m \<Rightarrow> json"
  isValidC32Address :: "string \<Rightarrow> bool"
  has0xPrefix :: "string \<Rightarrow> bool"
  isValidBitcoinAddress :: "string \<Rightarrow> bool"
  tryConvertC32ToBtc :: "string \<Rightarrow> string option"
  isProdEnv :: bool
  validate :: "string \<Rightarrow> json \<Rightarrow> thrown option"

section \<open>JavaScript primitives\<close>

definition digitChar :: "nat \<Rightarrow> char" where
  "digitChar d = ''0123456789'' ! d"

function decimal :: "nat \<Rightarrow> string" where
  "decimal n = (if n < 10 then [digitChar n] else decimal (n div 10) @ [digitChar (n mod 10)])"
  by pat_completeness auto
termination
  by (relation "measure id") auto

declare decimal.simps [simp del]

text \<open>\<^verbatim>\<open>toString()\<close> of a \<^verbatim>\<open>bigint\<close>, and of a non-negative integral number.\<close>

definition toString :: "int \<Rightarrow> string" where
  "toString i = (if i < 0 then CHR ''-'' # decimal (nat (- i)) else decimal (nat i))"

text \<open>The value a decimal string denotes, to read \<open>toString\<close> back.\<close>

definition digitValue :: "char \<Rightarrow> nat" where
  "digitValue c = of_char c - 48"

definition decimalValue :: "string \<Rightarrow> nat" where
  "decimalValue s = foldl (\<lambda>a c. 10 * a + digitValue c) 0 s"

definition readInt :: "string \<Rightarrow> int" where
  "readInt s = (case s of [] \<Rightarrow> 0
     | c # cs \<Rightarrow> if c = CHR ''-'' then - int (decimalValue cs) else int (decimalValue s))"

text \<open>\<^verbatim>\<open>String.prototype.trim\<close> removes the leading and the trailing code units that are
  ECMAScript white space or line terminators. Among the code units U+0000 to U+00FF these
  are tab, line feed, vertical tab, form feed, carriage return, space and the no-break space
  U+00A0; the others (U+1680, U+2000 to U+200A, U+2028, U+2029, U+202F, U+205F, U+3000,
  U+FEFF) lie above U+00FF.\<close>

definition isWhiteSpace :: "char \<Rightarrow> bool" where
  "isWhiteSpace c =
     (c \<in> set [CHR 0x09, CHR 0x0A, CHR 0x0B, CHR 0x0C, CHR 0x0D, CHR 0x20, CHR 0xA0])"

definition trim :: "string \<Rightarrow> string" where
  "trim s = rev (dropWhile isWhiteSpace (rev (dropWhile isWhiteSpace s)))"

text \<open>Truthiness of a \<^verbatim>\<open>string | undefined\<close>: the empty string is falsy.\<close>

fun truthy :: "string option \<Rightarrow> bool" where
  "truthy None = False"
| "truthy (Some s) = (s \<noteq> [])"

section \<open>Pagination\<close>

text \<open>Modelled from the spec: \<^verbatim>\<open>parsePagingQueryInput\<close> of \<^verbatim>\<open>src/api/pagination.ts\<close> is
  not among the source files. The spec: \<^emph>\<open>\<open>limit\<close>/\<open>offset\<close> are non-negative integers\<close>
  and \<^emph>\<open>default limits apply when omitted\<close>. A number, which is what a handler passes in
  place of an omitted parameter, is the value; a query value is read as a non-negative
  integer, or refused, by \<open>readPagingQuery\<close>, on which the spec is silent.\<close>

definition parsePagingQueryInput :: "'m helpers \<Rightarrow> pinput \<Rightarrow> thrown + nat" where
  "parsePagingQueryInput h val =
     (case val of PNum n \<Rightarrow> Inr n | PQuery q \<Rightarrow> readPagingQuery h q)"

text \<open>Modelled from the spec: \<^verbatim>\<open>parseLimitQuery\<close> of \<^verbatim>\<open>src/api/pagination.ts\<close> is not
  among the source files. The spec: \<^emph>\<open>\<open>limit\<close>/\<open>offset\<close> are non-negative integers; each
  endpoint declares its own maximum \<open>limit\<close> and rejects values above it with a client
  error\<close>. The value is read by \<open>parsePagingQueryInput\<close>, and a value above
  \<open>maxItems\<close> is rejected with the message the endpoint declared.\<close>

definition parseLimitQuery ::
  "(pinput \<Rightarrow> thrown + nat) \<Rightarrow> nat \<Rightarrow> string \<Rightarrow> pinput \<Rightarrow> thrown + nat" where
  "parseLimitQuery parse maxItems errorMsg val =
     (case parse val of
        Inl e \<Rightarrow> Inl e
      | Inr n \<Rightarrow> if n > maxItems then Inl (ClientError errorMsg) else Inr n)"

section \<open>The transaction router\<close>

definition MAX_TXS_PER_REQUEST :: nat where
  "MAX_TXS_PER_REQUEST = 200"

definition parseTxQueryLimit :: "'m helpers \<Rightarrow> pinput \<Rightarrow> thrown + nat" where
  "parseTxQueryLimit h =
     parseLimitQuery (parsePagingQueryInput h) MAX_TXS_PER_REQUEST
       (''`limit` must be equal to or less than '' @ decimal MAX_TXS_PER_REQUEST)"

definition MAX_MEMPOOL_TXS_PER_REQUEST :: nat where
  "MAX_MEMPOOL_TXS_PER_REQUEST = 200"

definition parseMempoolTxQueryLimit :: "'m helpers \<Rightarrow> pinput \<Rightarrow> thrown + nat" where
  "parseMempoolTxQueryLimit h =
     parseLimitQuery (parsePagingQueryInput h) MAX_MEMPOOL_TXS_PER_REQUEST
       (''`limit` must be equal to or less than '' @ decimal MAX_MEMPOOL_TXS_PER_REQUEST)"

definition MAX_EVENTS_PER_REQUEST :: nat where
  "MAX_EVENTS_PER_REQUEST = 200"

definition parseTxQueryEventsLimit :: "'m helpers \<Rightarrow> pinput \<Rightarrow> thrown + nat" where
  "parseTxQueryEventsLimit h =
     parseLimitQuery (parsePagingQueryInput h) MAX_EVENTS_PER_REQUEST
       (''`event_limit` must be equal to or less than '' @ decimal MAX_EVENTS_PER_REQUEST)"

text \<open>The object literals \<^verbatim>\<open>{ limit, offset, total, results }\<close> and \<^verbatim>\<open>{ error: msg }\<close>.\<close>

definition listResponse :: "nat \<Rightarrow> nat \<Rightarrow> nat \<Rightarrow> json list \<Rightarrow> json" where
  "listResponse lim off tot rs =
     JObj [(''limit'', JNum (int lim)), (''offset'', JNum (int off)),
           (''total'', JNum (int tot)), (''results'', JArr rs)]"

definition errorBody :: "string \<Rightarrow> json" where
  "errorBody msg = JObj [(''error'', JStr msg)]"

subsection \<open>\<^verbatim>\<open>GET /\<close>\<close>

text \<open>The branches on \<^verbatim>\<open>req.query.type\<close>: an array, a string, any other truthy value
  (an object), or nothing.\<close>

definition txTypeFilterOf :: "'m helpers \<Rightarrow> qval option \<Rightarrow> thrown + string list" where
  "txTypeFilterOf h typeQuery =
     (case typeQuery of
        Some (QArr ts) \<Rightarrow> parseTxTypeStrings h ts
      | Some (QStr t) \<Rightarrow> parseTxTypeStrings h [t]
      | Some (QObj j) \<Rightarrow> Inl (Error (''Unexpected tx type query value: '' @ j))
      | None \<Rightarrow> Inr [])"

text \<open>\<^verbatim>\<open>Bluebird.mapSeries(txResults, ...)\<close>: one lookup per listed transaction, in order,
  stopping at the first one that is not found.\<close>

fun mapSeriesTxQuery ::
  "'m helpers \<Rightarrow> 'm dataStore \<Rightarrow> dbTx list \<Rightarrow> (thrown + json list) \<times> storeCall list" where
  "mapSeriesTxQuery h db [] = (Inr [], [])"
| "mapSeriesTxQuery h db (tx # txs) =
     (let q = \<lparr>txId = tx_id tx, eventLimit = None, eventOffset = None\<rparr> in
      case getTxFromDataStore h db q of
        None \<Rightarrow>
          (Inl (Error ''unexpected tx not found -- fix tx enumeration query''),
           [GetTxFromDataStore q])
      | Some r \<Rightarrow>
          (case mapSeriesTxQuery h db txs of
             (Inl e, calls) \<Rightarrow> (Inl e, GetTxFromDataStore q # calls)
           | (Inr rs, calls) \<Rightarrow> (Inr (r # rs), GetTxFromDataStore q # calls)))"

definition getTransactionsSchema :: string where
  "getTransactionsSchema =
     ''@blockstack/stacks-blockchain-api-types/api/transaction/get-transactions.schema.json''"

definition txListRoute ::
  "'m helpers \<Rightarrow> 'm dataStore \<Rightarrow> request \<Rightarrow> response \<times> storeCall list" where
  "txListRoute h db req =
     (case parseTxQueryLimit h (nullish (limit_q req) 96) of
        Inl e \<Rightarrow> (Throws e, [])
      | Inr lim \<Rightarrow>
     (case parsePagingQueryInput h (nullish (offset_q req) 0) of
        Inl e \<Rightarrow> (Throws e, [])
      | Inr off \<Rightarrow>
     (case txTypeFilterOf h (type_q req) of
        Inl e \<Rightarrow> (Throws e, [])
      | Inr flt \<Rightarrow>
     (let args = \<lparr>offset = off, limit = lim, txTypeFilter = flt\<rparr>;
          listed = getTxList db args
      in case mapSeriesTxQuery h db (results listed) of
        (Inl e, calls) \<Rightarrow> (Throws e, GetTxList args # calls)
      | (Inr rs, calls) \<Rightarrow>
          (let resp = listResponse lim off (total listed) rs in
           if \<not> isProdEnv h then
             (case validate h getTransactionsSchema resp of
                Some e \<Rightarrow> (Throws e, GetTxList args # calls)
              | None \<Rightarrow> (Respond 200 resp, GetTxList args # calls))
           else (Respond 200 resp, GetTxList args # calls))))))"

subsection \<open>\<^verbatim>\<open>GET /mempool\<close>\<close>

text \<open>The callback mapped over \<^verbatim>\<open>['sender_address', 'recipient_address', 'address']\<close>:
  a falsy value gives \<^verbatim>\<open>undefined\<close>, an invalid one throws, a valid one is kept.\<close>

definition invalidAddrMessage :: "string \<Rightarrow> string \<Rightarrow> string" where
  \<open>invalidAddrMessage p addr =
     ''Invalid query parameter for "'' @ p @ ''": "'' @ addr @ ''" is not a valid STX address''\<close>

definition addrParam :: "'m helpers \<Rightarrow> string \<Rightarrow> string option \<Rightarrow> string + string option" where
  "addrParam h p a =
     (case a of
        None \<Rightarrow> Inr None
      | Some addr \<Rightarrow>
          if addr = [] then Inr None
          else if \<not> isValidC32Address h addr then Inl (invalidAddrMessage p addr)
          else Inr (Some addr))"

fun addrParamsOf ::
  "'m helpers \<Rightarrow> (string \<times> string option) list \<Rightarrow> string + string option list" where
  "addrParamsOf h [] = Inr []"
| "addrParamsOf h ((p, a) # ps) =
     (case addrParam h p a of
        Inl msg \<Rightarrow> Inl msg
      | Inr v \<Rightarrow> (case addrParamsOf h ps of Inl msg \<Rightarrow> Inl msg | Inr vs \<Rightarrow> Inr (v # vs)))"

text \<open>An element of an array destructuring: \<^verbatim>\<open>undefined\<close> past the end.\<close>

definition element :: "string option list \<Rightarrow> nat \<Rightarrow> string option" where
  "element xs i = (if i < length xs then xs ! i else None)"

definition addressFilterConflict :: string where
  \<open>addressFilterConflict =
     ''The "address" filter cannot be specified with other address filters''\<close>

definition mempoolRoute ::
  "'m helpers \<Rightarrow> 'm dataStore \<Rightarrow> request \<Rightarrow> response \<times> storeCall list" where
  \<open>mempoolRoute h db req =
     (case parseTxQueryLimit h (nullish (limit_q req) 96) of
        Inl e \<Rightarrow> (Throws e, [])
      | Inr lim \<Rightarrow>
     (case parsePagingQueryInput h (nullish (offset_q req) 0) of
        Inl e \<Rightarrow> (Throws e, [])
      | Inr off \<Rightarrow>
     (case addrParamsOf h
             [(''sender_address'', sender_address_q req),
              (''recipient_address'', recipient_address_q req),
              (''address'', address_q req)] of
        Inl msg \<Rightarrow> (Respond 400 (errorBody (''Error: '' @ msg)), [])
      | Inr addrParams \<Rightarrow>
     (let sender = element addrParams 0;
          recipient = element addrParams 1;
          addr = element addrParams 2
      in if truthy addr \<and> (truthy recipient \<or> truthy sender) then
           (Respond 400 (errorBody addressFilterConflict), [])
         else
           (let args = \<lparr>offset = off, limit = lim, senderAddress = sender,
                        recipientAddress = recipient, address = addr\<rparr>;
                listed = getMempoolTxList db args
            in (Respond 200
                  (listResponse lim off (total listed) (map (parseDbMempoolTx h) (results listed))),
                [GetMempoolTxList args]))))))\<close>

subsection \<open>\<^verbatim>\<open>GET /mempool/dropped\<close>\<close>

definition droppedRoute ::
  "'m helpers \<Rightarrow> 'm dataStore \<Rightarrow> request \<Rightarrow> response \<times> storeCall list" where
  "droppedRoute h db req =
     (case parseTxQueryLimit h (nullish (limit_q req) 96) of
        Inl e \<Rightarrow> (Throws e, [])
      | Inr lim \<Rightarrow>
     (case parsePagingQueryInput h (nullish (offset_q req) 0) of
        Inl e \<Rightarrow> (Throws e, [])
      | Inr off \<Rightarrow>
     (let args = \<lparr>offset = off, limit = lim\<rparr>;
          listed = getDroppedTxs db args
      in (Respond 200
            (listResponse lim off (total listed) (map (parseDbMempoolTx h) (results listed))),
          [GetDroppedTxs args]))))"

subsection \<open>\<^verbatim>\<open>GET /:tx_id\<close>\<close>

definition txRoute ::
  "'m helpers \<Rightarrow> 'm dataStore \<Rightarrow> request \<Rightarrow> response \<times> storeCall list" where
  "txRoute h db req =
     (if \<not> has0xPrefix h (tx_id_p req) then
        (Redirect (''/extended/v1/tx/0x'' @ tx_id_p req), [])
      else
     (case parseTxQueryEventsLimit h (nullish (event_limit_q req) 96) of
        Inl e \<Rightarrow> (Throws e, [])
      | Inr evLimit \<Rightarrow>
     (case parsePagingQueryInput h (nullish (event_offset_q req) 0) of
        Inl e \<Rightarrow> (Throws e, [])
      | Inr evOffset \<Rightarrow>
     (let q = \<lparr>txId = tx_id_p req, eventLimit = Some evLimit, eventOffset = Some evOffset\<rparr> in
      case getTxFromDataStore h db q of
        None \<Rightarrow>
          (Respond 404 (errorBody (''could not find transaction by ID '' @ tx_id_p req)),
           [GetTxFromDataStore q])
      | Some r \<Rightarrow> (Respond 200 r, [GetTxFromDataStore q])))))"

subsection \<open>\<^verbatim>\<open>GET /stream\<close>\<close>

text \<open>A query value inside a template literal.\<close>

fun joinComma :: "string list \<Rightarrow> string" where
  "joinComma [] = []"
| "joinComma [x] = x"
| "joinComma (x # y # ys) = x @ '','' @ joinComma (y # ys)"

definition templateText :: "qval option \<Rightarrow> string" where
  "templateText v =
     (case v of
        None \<Rightarrow> ''undefined''
      | Some (QStr s) \<Rightarrow> s
      | Some (QArr xs) \<Rightarrow> joinComma xs
      | Some (QObj j) \<Rightarrow> ''[object Object]'')"

text \<open>The handler up to \<^verbatim>\<open>await endWaiter\<close>: the protocol check, the response head, and the
  subscription to the store's \<^verbatim>\<open>txUpdate\<close> events. The handler then stays suspended
  until the connection closes; what runs meanwhile is \<open>dbTxUpdate\<close>, once per event,
  and \<open>onClose\<close> at the end.\<close>

definition streamRoute ::
  "'m helpers \<Rightarrow> 'm dataStore \<Rightarrow> request \<Rightarrow> response \<times> storeCall list" where
  \<open>streamRoute h db req =
     (let protocol = protocol_q req;
          useEventSource = (protocol = Some (QStr ''eventsource''));
          useWebSocket = (protocol = Some (QStr ''websocket''))
      in if \<not> useEventSource \<and> \<not> useWebSocket then
           (Throws (Error (''Unsupported stream protocol "'' @ templateText protocol @ ''"'')), [])
         else if useEventSource then
           (WriteHead 200
              [(''Content-Type'', ''text/event-stream''), (''Cache-Control'', ''no-cache''),
               (''Connection'', ''keep-alive'')],
            [AddListener ''txUpdate''])
         else (Throws (Error ''WebSocket stream not yet implemented''), []))\<close>

text \<open>One \<^verbatim>\<open>txUpdate\<close> event: the transaction written to the stream (nothing when it is
  not found: the error is caught and logged), and the lookup made.\<close>

definition dbTxUpdate ::
  "'m helpers \<Rightarrow> 'm dataStore \<Rightarrow> string \<Rightarrow> json option \<times> storeCall list" where
  "dbTxUpdate h db txid =
     (let q = \<lparr>txId = txid, eventLimit = None, eventOffset = None\<rparr> in
      (getTxFromDataStore h db q, [GetTxFromDataStore q]))"

definition onClose :: "storeCall list" where
  "onClose = [RemoveListener ''txUpdate'']"

text \<open>\<^verbatim>\<open>createTxRouter(db)\<close>: the handlers by path, in the order of registration.\<close>

definition createTxRouter ::
  "'m helpers \<Rightarrow> 'm dataStore \<Rightarrow> (string \<times> (request \<Rightarrow> response \<times> storeCall list)) list" where
  "createTxRouter h db =
     [(''/'', txListRoute h db),
      (''/mempool'', mempoolRoute h db),
      (''/mempool/dropped'', droppedRoute h db),
      (''/stream'', streamRoute h db),
      (''/:tx_id'', txRoute h db)]"

section \<open>The burnchain router\<close>

definition MAX_BLOCKS_PER_REQUEST :: nat where
  "MAX_BLOCKS_PER_REQUEST = 30"

definition parseBlockQueryLimit :: "'m helpers \<Rightarrow> pinput \<Rightarrow> thrown + nat" where
  "parseBlockQueryLimit h =
     parseLimitQuery (parsePagingQueryInput h) MAX_BLOCKS_PER_REQUEST
       (''`limit` must be equal to or less than '' @ decimal MAX_BLOCKS_PER_REQUEST)"

text \<open>The \<^verbatim>\<open>BurnchainReward\<close> literal built for every row, and the response literal
  \<^verbatim>\<open>{ limit, offset, results }\<close>.\<close>

definition rewardJson :: "dbBurnchainReward \<Rightarrow> json" where
  "rewardJson r =
     JObj [(''canonical'', JBool (canonical r)),
           (''burn_block_hash'', JStr (burn_block_hash r)),
           (''burn_block_height'', JNum (burn_block_height r)),
           (''burn_amount'', JStr (toString (burn_amount r))),
           (''reward_recipient'', JStr (dbBurnchainReward.reward_recipient r)),
           (''reward_amount'', JStr (toString (dbBurnchainReward.reward_amount r))),
           (''reward_index'', JNum (reward_index r))]"

definition rewardListResponse :: "nat \<Rightarrow> nat \<Rightarrow> json list \<Rightarrow> json" where
  "rewardListResponse lim off rs =
     JObj [(''limit'', JNum (int lim)), (''offset'', JNum (int off)), (''results'', JArr rs)]"

text \<open>The address resolution both address routes start with: the trimmed parameter when
  it is a Bitcoin address, else its conversion when that is truthy, else \<^verbatim>\<open>undefined\<close>.\<close>

definition burnchainAddressOf :: "'m helpers \<Rightarrow> string \<Rightarrow> string option" where
  "burnchainAddressOf h addr =
     (let queryAddr = trim addr in
      if isValidBitcoinAddress h queryAddr then Some queryAddr
      else (let convertedAddr = tryConvertC32ToBtc h queryAddr in
            if truthy convertedAddr then convertedAddr else None))"

definition invalidAddressBody :: "string \<Rightarrow> json" where
  "invalidAddressBody addr =
     errorBody (''Address '' @ trim addr @ '' is not a valid Bitcoin or STX address.'')"

subsection \<open>\<^verbatim>\<open>GET /rewards\<close>\<close>

definition rewardsRoute ::
  "'m helpers \<Rightarrow> 'm dataStore \<Rightarrow> request \<Rightarrow> response \<times> storeCall list" where
  "rewardsRoute h db req =
     (case parseBlockQueryLimit h (nullish (limit_q req) 20) of
        Inl e \<Rightarrow> (Throws e, [])
      | Inr lim \<Rightarrow>
     (case parsePagingQueryInput h (nullish (offset_q req) 0) of
        Inl e \<Rightarrow> (Throws e, [])
      | Inr off \<Rightarrow>
     (let args = \<lparr>offset = off, limit = lim, burnchainRecipient = None\<rparr>;
          queryResults = getBurnchainRewards db args
      in (Respond 200 (rewardListResponse lim off (map rewardJson queryResults)),
          [GetBurnchainRewards args]))))"

subsection \<open>\<^verbatim>\<open>GET /rewards/:address\<close>\<close>

definition rewardsAddressRoute ::
  "'m helpers \<Rightarrow> 'm dataStore \<Rightarrow> request \<Rightarrow> response \<times> storeCall list" where
  "rewardsAddressRoute h db req =
     (case parseBlockQueryLimit h (nullish (limit_q req) 20) of
        Inl e \<Rightarrow> (Throws e, [])
      | Inr lim \<Rightarrow>
     (case parsePagingQueryInput h (nullish (offset_q req) 0) of
        Inl e \<Rightarrow> (Throws e, [])
      | Inr off \<Rightarrow>
     (let burnchainAddress = burnchainAddressOf h (address_p req) in
      if \<not> truthy burnchainAddress then
        (Respond 400 (invalidAddressBody (address_p req)), [])
      else
        (let args = \<lparr>offset = off, limit = lim, burnchainRecipient = burnchainAddress\<rparr>;
             queryResults = getBurnchainRewards db args
         in (Respond 200 (rewardListResponse lim off (map rewardJson queryResults)),
             [GetBurnchainRewards args])))))"

subsection \<open>\<^verbatim>\<open>GET /rewards/:address/total\<close>\<close>

definition rewardsTotalRoute ::
  "'m helpers \<Rightarrow> 'm dataStore \<Rightarrow> request \<Rightarrow> response \<times> storeCall list" where
  "rewardsTotalRoute h db req =
     (case burnchainAddressOf h (address_p req) of
        None \<Rightarrow> (Respond 400 (invalidAddressBody (address_p req)), [])
      | Some burnchainAddress \<Rightarrow>
          if burnchainAddress = [] then
            (Respond 400 (invalidAddressBody (address_p req)), [])
          else
            (let queryResults = getBurnchainRewardsTotal db burnchainAddress in
             (Respond 200
                (JObj [(''reward_recipient'', JStr (reward_recipient queryResults)),
                       (''reward_amount'', JStr (toString (reward_amount queryResults)))]),
              [GetBurnchainRewardsTotal burnchainAddress])))"

text \<open>\<^verbatim>\<open>createBurnchainRouter(db)\<close>: the handlers by path.\<close>

definition createBurnchainRouter ::
  "'m helpers \<Rightarrow> 'm dataStore \<Rightarrow> (string \<times> (request \<Rightarrow> response \<times> storeCall list)) list" where
  "createBurnchainRouter h db =
     [(''/rewards'', rewardsRoute h db),
      (''/rewards/:address'', rewardsAddressRoute h db),
      (''/rewards/:address/total'', rewardsTotalRoute h db)]"

section \<open>The query side of the store\<close>

text \<open>Modelled from the spec: the list operations of the store (\<^verbatim>\<open>DataStore\<close>, section 4.6
  of the spec, Query Service) are not among the source files. \<^emph>\<open>All list operations return
  \<open>{limit, offset, total, results}\<close>; \<open>total\<close> reflects the unfiltered count matching the
  filter predicate, independent of the page window\<close>, and \<^emph>\<open>\<open>offset\<close> beyond \<open>total\<close> yields
  an empty \<open>results\<close> with the correct \<open>total\<close>\<close>: the results are the page of the matching
  rows, the total is their number.\<close>

definition listRows :: "('r \<Rightarrow> bool) \<Rightarrow> 'r list \<Rightarrow> nat \<Rightarrow> nat \<Rightarrow> 'r listResult" where
  "listRows matches rows off lim =
     \<lparr>results = take lim (drop off (filter matches rows)),
      total = length (filter matches rows)\<rparr>"

text \<open>Modelled from the spec: what the store holds for the Query Service, which is not among
  the source files: the transactions with the predicate of the type filter, the pending
  mempool transactions with the predicate of the sender, recipient and either-address
  filters, the dropped mempool transactions, and the burnchain rewards.\<close>

record 'm queryRows =
  listedTxs :: "dbTx list"
  typeMatches :: "string list \<Rightarrow> dbTx \<Rightarrow> bool"
  pendingTxs :: "'m list"
  addressMatches :: "string option \<Rightarrow> string option \<Rightarrow> string option \<Rightarrow> 'm \<Rightarrow> bool"
  droppedTxs :: "'m list"
  rewardRows :: "dbBurnchainReward list"

text \<open>Modelled from the spec: the read operations of section 6, which are not among the
  source files. \<open>getTxList\<close>, \<open>getMempoolTxList\<close> and \<open>getDroppedTxs\<close> give
  \<open>{total, results}\<close> as above; \<open>getBurnchainRewards\<close> gives the page of the rewards,
  of the recipient when one is asked for; \<open>getBurnchainRewardsTotal(address)\<close> gives
  \<open>{reward_recipient, reward_amount}\<close>, the address with the sum of its rewards, taken
  \<^emph>\<open>strictly from canonical rows\<close>.\<close>

definition queryService :: "'m queryRows \<Rightarrow> 'm dataStore" where
  "queryService st =
     \<lparr>getTxList = (\<lambda>a. listRows (typeMatches st (txTypeFilter a)) (listedTxs st)
                          (offset a) (limit a)),
      getMempoolTxList = (\<lambda>a.
         listRows (addressMatches st (senderAddress a) (recipientAddress a) (address a))
           (pendingTxs st) (offset a) (limit a)),
      getDroppedTxs = (\<lambda>a. listRows (\<lambda>m. True) (droppedTxs st) (offset a) (limit a)),
      getBurnchainRewards = (\<lambda>a.
         take (limit a) (drop (offset a)
           (filter (\<lambda>r. case burnchainRecipient a of
                           None \<Rightarrow> True
                         | Some b \<Rightarrow> dbBurnchainReward.reward_recipient r = b)
              (rewardRows st)))),
      getBurnchainRewardsTotal = (\<lambda>b.
         \<lparr>reward_recipient = b,
          reward_amount =
            sum_list (map dbBurnchainReward.reward_amount
              (filter (\<lambda>r. canonical r \<and> dbBurnchainReward.reward_recipient r = b)
                 (rewardRows st)))\<rparr>)\<rparr>"

section \<open>The chain state store\<close>

text \<open>
  The ingestion side of the service (the store's \<^verbatim>\<open>appendBlock\<close> and the components behind
  it) is not among the source files. What follows is written from sections 3 and 4 of the
  spec, to state what the spec says about replayed blocks.
\<close>

text \<open>Modelled from the spec: the rows of section 3, which are not among the source files.
  A block has its index-hash, its parent's, its height and the mutable \<open>canonical\<close> flag; a
  transaction its id, the index-hash of the containing block, sender, recipient, value, fee,
  status and flag; an event its transaction, its \<open>event_index\<close>, its kind and flag; a
  mempool transaction its id, the pruned flag and the drop reason.\<close>

record blockRow =
  index_block_hash :: string
  parent_index_block_hash :: string
  block_height :: nat
  block_canonical :: bool

record txRow =
  row_tx_id :: string
  tx_index_block_hash :: string
  tx_sender :: string
  tx_recipient :: string
  tx_value :: nat
  tx_fee :: nat
  tx_success :: bool
  tx_canonical :: bool

datatype eventKind =
    StxTransfer
  | StxLock string nat nat
  | AssetTransfer
  | ContractLog
  | ContractDeploy

record eventRow =
  event_tx_id :: string
  event_index_block_hash :: string
  event_index :: nat
  event_kind :: eventKind
  event_canonical :: bool

record mempoolRow =
  mempool_tx_id :: string
  pruned :: bool
  drop_reason :: "string option"

record chainState =
  blockRows :: "blockRow list"
  txRows :: "txRow list"
  eventRows :: "eventRow list"
  mempoolRows :: "mempoolRow list"

datatype ingestError = ConsistencyError

text \<open>Modelled from the spec: the Aggregate Recalculator of section 4.5, which is not among
  the source files. \<^emph>\<open>Balance for address A = the incoming value on canonical, successful
  transactions to A, minus the outgoing value and fees on canonical, successful transactions
  from A, minus the currently locked amount\<close>, the latter taken from \<^emph>\<open>the most recent
  canonical STX-lock event for that address whose unlock height has not yet passed\<close>
  (\<open>StxLock address amount unlockHeight\<close>), at the height of the canonical tip.\<close>

definition tipHeight :: "chainState \<Rightarrow> nat" where
  "tipHeight s = foldr max (map block_height (filter block_canonical (blockRows s))) 0"

definition lockedAmount :: "chainState \<Rightarrow> string \<Rightarrow> nat" where
  "lockedAmount s a =
     foldl (\<lambda>amount e.
              case event_kind e of
                StxLock addr locked unlockHeight \<Rightarrow>
                  if event_canonical e \<and> addr = a \<and> tipHeight s < unlockHeight then locked
                  else amount
              | _ \<Rightarrow> amount)
       0 (eventRows s)"

definition balance :: "chainState \<Rightarrow> string \<Rightarrow> int" where
  "balance s a =
     int (sum_list (map tx_value
            (filter (\<lambda>t. tx_canonical t \<and> tx_success t \<and> tx_recipient t = a) (txRows s))))
     - int (sum_list (map (\<lambda>t. tx_value t + tx_fee t)
            (filter (\<lambda>t. tx_canonical t \<and> tx_success t \<and> tx_sender t = a) (txRows s))))
     - int (lockedAmount s a)"

text \<open>Modelled from the spec: the flag update of the Reorg Resolver (section 4.3, step 3),
  which is not among the source files. Given which index-hashes are canonical, every block
  row gets its flag, and every transaction and event the flag of its containing block; no
  row is added or removed.\<close>

definition markCanonical :: "(string \<Rightarrow> bool) \<Rightarrow> chainState \<Rightarrow> chainState" where
  "markCanonical canon s =
     s\<lparr>blockRows := map (\<lambda>b. b\<lparr>block_canonical := canon (index_block_hash b)\<rparr>) (blockRows s),
       txRows := map (\<lambda>t. t\<lparr>tx_canonical := canon (tx_index_block_hash t)\<rparr>) (txRows s),
       eventRows :=
         map (\<lambda>e. e\<lparr>event_canonical := canon (event_index_block_hash e)\<rparr>) (eventRows s)\<rparr>"

text \<open>Modelled from the spec: the Mempool Manager of section 4.4, which is not among the
  source files. \<open>restoreIfUnmined\<close> puts a mined (pruned) transaction back to pending
  unless it is mined in the canonical chain; \<open>pruneIfPending\<close> marks a pending transaction
  mined; a dropped transaction stays dropped.\<close>

definition minedCanonically :: "chainState \<Rightarrow> string \<Rightarrow> bool" where
  "minedCanonically s txid = list_ex (\<lambda>t. row_tx_id t = txid \<and> tx_canonical t) (txRows s)"

definition restoreIfUnmined :: "chainState \<Rightarrow> string \<Rightarrow> chainState" where
  "restoreIfUnmined s txid =
     (if minedCanonically s txid then s
      else s\<lparr>mempoolRows :=
               map (\<lambda>m. if mempool_tx_id m = txid \<and> pruned m \<and> drop_reason m = None
                         then m\<lparr>pruned := False\<rparr> else m) (mempoolRows s)\<rparr>)"

definition pruneIfPending :: "chainState \<Rightarrow> string \<Rightarrow> chainState" where
  "pruneIfPending s txid =
     s\<lparr>mempoolRows :=
         map (\<lambda>m. if mempool_tx_id m = txid \<and> \<not> pruned m \<and> drop_reason m = None
                   then m\<lparr>pruned := True\<rparr> else m) (mempoolRows s)\<rparr>"

definition hasBlock :: "chainState \<Rightarrow> string \<Rightarrow> bool" where
  "hasBlock s ih = (ih \<in> set (map index_block_hash (blockRows s)))"

text \<open>Modelled from the spec: \<^verbatim>\<open>appendBlock(block, txs, events)\<close> of the Chain State Store
  (section 4.2) with the bookkeeping that section 4.3 attaches to it; neither is among the
  source files. \<^emph>\<open>If the block's index-hash already exists, the call is a no-op.\<close>
  Otherwise the block, its transactions and its events are inserted, the canonical chain is
  resolved, the flags are set, and for every transaction that went from canonical to
  non-canonical \<open>restoreIfUnmined\<close> is called, then for every one that went the other way
  \<open>pruneIfPending\<close> (step 5). The choice of the canonical chain (steps 1 to 4, where the
  resolver \<^emph>\<open>mirrors the node's decision\<close>) is the parameter \<open>resolve\<close>: from the store
  with the new rows it gives the canonical index-hashes, or the fatal consistency error, in
  which case nothing is stored.\<close>

definition appendBlock ::
  "(chainState \<Rightarrow> blockRow \<Rightarrow> ingestError + (string \<Rightarrow> bool)) \<Rightarrow>
   chainState \<Rightarrow> blockRow \<Rightarrow> txRow list \<Rightarrow> eventRow list \<Rightarrow> ingestError + chainState" where
  "appendBlock resolve s b txs events =
     (if hasBlock s (index_block_hash b) then Inr s
      else
        (let inserted = s\<lparr>blockRows := blockRows s @ [b], txRows := txRows s @ txs,
                           eventRows := eventRows s @ events\<rparr>
         in case resolve inserted b of
              Inl e \<Rightarrow> Inl e
            | Inr canon \<Rightarrow>
                (let flipped = markCanonical canon inserted;
                     demoted = map row_tx_id
                       (filter (\<lambda>t. tx_canonical t \<and> \<not> canon (tx_index_block_hash t))
                          (txRows inserted));
                     promoted = map row_tx_id
                       (filter (\<lambda>t. \<not> tx_canonical t \<and> canon (tx_index_block_hash t))
                          (txRows inserted));
                     restored = foldl restoreIfUnmined flipped demoted
                 in Inr (foldl pruneIfPending restored promoted))))"

section \<open>Notions used in the statements\<close>

text \<open>A query parameter that is present and is not a valid C32 address.\<close>

definition invalidAddr :: "'m helpers \<Rightarrow> string option \<Rightarrow> bool" where
  "invalidAddr h a = (case a of None \<Rightarrow> False | Some addr \<Rightarrow> addr \<noteq> [] \<and> \<not> isValidC32Address h addr)"

text \<open>The filter a query parameter stands for: none when it is absent or empty.\<close>

definition filterOf :: "string option \<Rightarrow> string option" where
  "filterOf a = (if truthy a then a else None)"

text \<open>The member names of the object a handler responded with, in order.\<close>

definition memberNames :: "response \<Rightarrow> string list" where
  "memberNames r = (case r of Respond _ (JObj ms) \<Rightarrow> map fst ms | _ \<Rightarrow> [])"

definition isResult :: "response \<Rightarrow> bool" where
  "isResult r = (case r of Respond n _ \<Rightarrow> n = 200 | _ \<Rightarrow> False)"

section \<open>A concrete environment\<close>

text \<open>An instance of the imported helpers and of the store, small enough to evaluate the
  routes on concrete requests: digit strings are accepted as pagination values, the store holds two transactions, two mempool transactions and one reward.\<close>

definition sampleRead :: "qval \<Rightarrow> thrown + nat" where
  "sampleRead v =
     (case v of
        QStr s \<Rightarrow>
          if s \<noteq> [] \<and> list_all (\<lambda>c. c \<in> set ''0123456789'') s then Inr (decimalValue s)
          else Inl (ClientError ''not a valid numerical string'')
      | _ \<Rightarrow> Inl (ClientError ''not a string or a number''))"

definition sampleReward :: dbBurnchainReward where
  "sampleReward =
     \<lparr>canonical = True, burn_block_hash = ''0xb1'', burn_block_height = 7, burn_amount = 0,
      reward_recipient = ''1abc'', reward_amount = 1500, reward_index = 0\<rparr>"

definition sampleStore :: "string dataStore" where
  "sampleStore =
     \<lparr>getTxList = (\<lambda>a. \<lparr>results = take (limit a) (drop (offset a)
                                  [\<lparr>tx_id = ''0xaa''\<rparr>, \<lparr>tx_id = ''0xbb''\<rparr>]), total = 2\<rparr>),
      getMempoolTxList = (\<lambda>a. \<lparr>results = take (limit a) (drop (offset a) [''0xcc'', ''0xdd'']),
                                total = 2\<rparr>),
      getDroppedTxs = (\<lambda>a. \<lparr>results = take (limit a) (drop (offset a) [''0xee'']), total = 1\<rparr>),
      getBurnchainRewards = (\<lambda>a. take (limit a) (drop (offset a) [sampleReward])),
      getBurnchainRewardsTotal = (\<lambda>a. \<lparr>reward_recipient = a, reward_amount = 1500\<rparr>)\<rparr>"

definition sampleHelpers :: "string helpers" where
  "sampleHelpers =
     \<lparr>readPagingQuery = sampleRead,
      parseTxTypeStrings = (\<lambda>ts. Inr ts),
      getTxFromDataStore = (\<lambda>db q.
         if txId q \<in> set [''0xaa'', ''0xbb''] then Some (JObj [(''tx_id'', JStr (txId q))])
         else None),
      parseDbMempoolTx = (\<lambda>m. JObj [(''tx_id'', JStr m)]),
      isValidC32Address = (\<lambda>a. take 2 a = ''SP''),
      has0xPrefix = (\<lambda>a. take 2 a = ''0x''),
      isValidBitcoinAddress = (\<lambda>a. take 1 a = ''1''),
      tryConvertC32ToBtc = (\<lambda>a. if take 2 a = ''SP'' then Some (''1'' @ drop 2 a) else None),
      isProdEnv = False,
      validate = (\<lambda>path body. None)\<rparr>"

text \<open>Rows for the query side: three transactions of two types, three pending mempool
  transactions given as (id, sender, recipient), one dropped transaction, and three rewards
  of which one is not canonical.\<close>

definition sampleRows :: "(string \<times> string \<times> string) queryRows" where
  "sampleRows =
     \<lparr>listedTxs = [\<lparr>tx_id = ''0xaa''\<rparr>, \<lparr>tx_id = ''0xbb''\<rparr>, \<lparr>tx_id = ''0xab''\<rparr>],
      typeMatches = (\<lambda>types tx. types = [] \<or> take 3 (tx_id tx) \<in> set types),
      pendingTxs = [(''0xcc'', ''SP1'', ''SP2''), (''0xdd'', ''SP2'', ''SP3''),
                    (''0xde'', ''SP1'', ''SP3'')],
      addressMatches = (\<lambda>sender recipient addr (i, s, r).
         (sender = None \<or> sender = Some s) \<and> (recipient = None \<or> recipient = Some r) \<and>
         (addr = None \<or> addr = Some s \<or> addr = Some r)),
      droppedTxs = [(''0xee'', ''SP4'', ''SP1'')],
      rewardRows =
        [sampleReward,
         \<lparr>canonical = True, burn_block_hash = ''0xb2'', burn_block_height = 8,
          burn_amount = 0, reward_recipient = ''1abc'', reward_amount = 20, reward_index = 0\<rparr>,
         \<lparr>canonical = False, burn_block_hash = ''0xb3'', burn_block_height = 8,
          burn_amount = 0, reward_recipient = ''1abc'', reward_amount = 300,
          reward_index = 0\<rparr>]\<rparr>"

definition rowHelpers :: "(string \<times> string \<times> string) helpers" where
  "rowHelpers =
     \<lparr>readPagingQuery = sampleRead,
      parseTxTypeStrings = (\<lambda>ts. Inr ts),
      getTxFromDataStore = (\<lambda>db q. Some (JObj [(''tx_id'', JStr (txId q))])),
      parseDbMempoolTx = (\<lambda>(i, s, r). JObj [(''tx_id'', JStr i)]),
      isValidC32Address = (\<lambda>a. take 2 a = ''SP''),
      has0xPrefix = (\<lambda>a. take 2 a = ''0x''),
      isValidBitcoinAddress = (\<lambda>a. take 1 a = ''1''),
      tryConvertC32ToBtc = (\<lambda>a. if take 2 a = ''SP'' then Some (''1'' @ drop 2 a) else None),
      isProdEnv = True,
      validate = (\<lambda>path body. None)\<rparr>"

text \<open>The request without any parameter.\<close>

definition emptyRequest :: request where
  "emptyRequest =
     \<lparr>limit_q = None, offset_q = None, type_q = None, sender_address_q = None,
      recipient_address_q = None, address_q = None, event_limit_q = None,
      event_offset_q = None, protocol_q = None, tx_id_p = [], address_p = []\<rparr>"

text \<open>A chain of one block: the block \<open>0x01\<close> at height 1 with one transfer, before it is
  appended (the transfer is pending in the mempool) and after; every stored block is
  designated canonical.\<close>

definition sampleBlock :: blockRow where
  "sampleBlock =
     \<lparr>index_block_hash = ''0x01'', parent_index_block_hash = ''0x00'', block_height = 1,
      block_canonical = False\<rparr>"

definition sampleTx :: txRow where
  "sampleTx =
     \<lparr>row_tx_id = ''0xaa'', tx_index_block_hash = ''0x01'', tx_sender = ''SP1'',
      tx_recipient = ''SP2'', tx_value = 5, tx_fee = 1, tx_success = True,
      tx_canonical = False\<rparr>"

definition chainBefore :: chainState where
  "chainBefore =
     \<lparr>blockRows = [], txRows = [], eventRows = [],
      mempoolRows = [\<lparr>mempool_tx_id = ''0xaa'', pruned = False, drop_reason = None\<rparr>]\<rparr>"

definition chainAfter :: chainState where
  "chainAfter =
     \<lparr>blockRows = [sampleBlock\<lparr>block_canonical := True\<rparr>],
      txRows = [sampleTx\<lparr>tx_canonical := True\<rparr>], eventRows = [],
      mempoolRows = [\<lparr>mempool_tx_id = ''0xaa'', pruned = True, drop_reason = None\<rparr>]\<rparr>"

definition sampleResolve :: "chainState \<Rightarrow> blockRow \<Rightarrow> ingestError + (string \<Rightarrow> bool)" where
  "sampleResolve s b = Inr (\<lambda>ih. ih \<in> set (map index_block_hash (blockRows s)))"

section \<open>Decimal strings\<close>

lemma digit_cases:
  "d < 10 \<Longrightarrow> d = 0 \<or> d = 1 \<or> d = 2 \<or> d = 3 \<or> d = 4 \<or> d = 5 \<or> d = 6 \<or> d = 7 \<or> d = 8 \<or> d = (9::nat)"
  by arith

lemma digitValue_digitChar:
  assumes "d < 10"
  shows "digitValue (digitChar d) = d"
  using digit_cases [OF assms] by (elim disjE; simp add: digitValue_def digitChar_def)

lemma digitChar_not_minus:
  assumes "d < 10"
  shows "digitChar d \<noteq> CHR ''-''"
  using digit_cases [OF assms] by (elim disjE; simp add: digitChar_def)

lemma decimalValue_snoc: "decimalValue (xs @ [c]) = 10 * decimalValue xs + digitValue c"
  by (simp add: decimalValue_def)

lemma decimalValue_decimal: "decimalValue (decimal n) = n"
proof (induction n rule: decimal.induct)
  case (1 n)
  show ?case
  proof (cases "n < 10")
    case True
    then show ?thesis
      by (subst decimal.simps) (simp add: decimalValue_def digitValue_digitChar)
  next
    case False
    with 1 have "decimalValue (decimal (n div 10)) = n div 10" by simp
    with False show ?thesis
      by (subst decimal.simps) (simp add: decimalValue_snoc digitValue_digitChar)
  qed
qed

lemma decimal_head: "\<exists>c cs. decimal n = c # cs \<and> c \<noteq> CHR ''-''"
proof (induction n rule: decimal.induct)
  case (1 n)
  show ?case
  proof (cases "n < 10")
    case True
    then show ?thesis
      by (subst decimal.simps) (simp add: digitChar_not_minus)
  next
    case False
    with 1 obtain c cs where "decimal (n div 10) = c # cs" "c \<noteq> CHR ''-''" by auto
    with False show ?thesis
      by (subst decimal.simps) simp
  qed
qed

lemma readInt_toString: "readInt (toString i) = i"
proof (cases "i < 0")
  case True
  then show ?thesis
    by (simp add: readInt_def toString_def decimalValue_decimal)
next
  case False
  obtain c cs where d: "decimal (nat i) = c # cs" "c \<noteq> CHR ''-''"
    using decimal_head by blast
  have "decimalValue (c # cs) = nat i"
    using decimalValue_decimal [of "nat i"] d by simp
  with False d show ?thesis
    by (simp add: readInt_def toString_def)
qed

lemma decimal_200: "decimal 200 = ''200''"
  by (simp add: decimal.simps digitChar_def)
lemma decimal_30: "decimal 30 = ''30''"
  by (simp add: decimal.simps digitChar_def)

section \<open>The concrete environment, evaluated\<close>

lemma sample_paging:
  "parsePagingQueryInput sampleHelpers (PNum n) = Inr n"
  "parseTxQueryLimit sampleHelpers (PNum 96) = Inr 96"
  "parseTxQueryEventsLimit sampleHelpers (PNum 96) = Inr 96"
  "parseBlockQueryLimit sampleHelpers (PNum 20) = Inr 20"
  by (simp_all add: parsePagingQueryInput_def parseTxQueryLimit_def
      parseTxQueryEventsLimit_def parseBlockQueryLimit_def parseLimitQuery_def
      MAX_TXS_PER_REQUEST_def MAX_EVENTS_PER_REQUEST_def MAX_BLOCKS_PER_REQUEST_def)

lemma sample_addr:
  "isValidC32Address sampleHelpers a = (take 2 a = ''SP'')"
  "parseDbMempoolTx sampleHelpers m = JObj [(''tx_id'', JStr m)]"
  by (simp_all add: sampleHelpers_def)

lemma sample_mempool:
  "getMempoolTxList sampleStore a =
     \<lparr>results = take (limit a) (drop (offset a) [''0xcc'', ''0xdd'']), total = 2\<rparr>"
  by (simp add: sampleStore_def)

lemma sample_limit_default:
  "parseLimitQuery (parsePagingQueryInput h) m msg (PNum n) =
     (if n > m then Inl (ClientError msg) else Inr n)"
  by (simp add: parseLimitQuery_def parsePagingQueryInput_def)

lemma sample_burnchain:
  "isValidBitcoinAddress sampleHelpers a = (take 1 a = ''1'')"
  "tryConvertC32ToBtc sampleHelpers a = (if take 2 a = ''SP'' then Some (''1'' @ drop 2 a) else None)"
  "isValidBitcoinAddress rowHelpers a = (take 1 a = ''1'')"
  "tryConvertC32ToBtc rowHelpers a = (if take 2 a = ''SP'' then Some (''1'' @ drop 2 a) else None)"
  by (simp_all add: sampleHelpers_def rowHelpers_def)

lemma sample_trim:
  "trim '' SPabc '' = ''SPabc''"
  "trim [CHR 0xA0, CHR ''1'', CHR ''a'', CHR ''b'', CHR ''c'', CHR 0x09] = ''1abc''"
  "trim '' x x '' = ''x x''"
  by (simp_all add: trim_def isWhiteSpace_def)

lemma sample_store_lists:
  "getTxList sampleStore a =
     \<lparr>results = take (limit a) (drop (offset a) [\<lparr>tx_id = ''0xaa''\<rparr>, \<lparr>tx_id = ''0xbb''\<rparr>]),
      total = 2\<rparr>"
  "getDroppedTxs sampleStore p =
     \<lparr>results = take (limit p) (drop (offset p) [''0xee'']), total = 1\<rparr>"
  "getBurnchainRewards sampleStore r = take (limit r) (drop (offset r) [sampleReward])"
  "getBurnchainRewardsTotal sampleStore b = \<lparr>reward_recipient = b, reward_amount = 1500\<rparr>"
  by (simp_all add: sampleStore_def)

lemma toString_1520: "toString 1520 = ''1520''"
  by (simp add: toString_def decimal.simps digitChar_def)

lemma sample_rewards_total:
  "getBurnchainRewardsTotal (queryService sampleRows) ''1abc'' =
     \<lparr>reward_recipient = ''1abc'', reward_amount = 1520\<rparr>"
  by (simp add: queryService_def sampleRows_def sampleReward_def)

lemma sample_prefix: "has0xPrefix sampleHelpers a = (take 2 a = ''0x'')"
  by (simp add: sampleHelpers_def)

lemma sample_query_number:
  "parsePagingQueryInput sampleHelpers (PQuery (QStr ''201'')) = Inr 201"
  "parsePagingQueryInput sampleHelpers (PQuery (QStr ''200'')) = Inr 200"
  "parsePagingQueryInput sampleHelpers (PQuery (QStr ''31'')) = Inr 31"
  by (simp_all add: parsePagingQueryInput_def sampleHelpers_def sampleRead_def decimalValue_def
      digitValue_def)

lemma sample_lookup:
  "getTxFromDataStore sampleHelpers db q =
     (if txId q \<in> set [''0xaa'', ''0xbb''] then Some (JObj [(''tx_id'', JStr (txId q))])
      else None)"
  by (simp add: sampleHelpers_def)

lemma row_paging:
  "parsePagingQueryInput rowHelpers (PNum n) = Inr n"
  "parsePagingQueryInput rowHelpers (PQuery (QStr ''1'')) = Inr 1"
  "parsePagingQueryInput rowHelpers (PQuery (QStr ''5'')) = Inr 5"
  "parseTxQueryLimit rowHelpers (PNum 96) = Inr 96"
  "parseTxQueryLimit rowHelpers (PQuery (QStr ''1'')) = Inr 1"
  "parseBlockQueryLimit rowHelpers (PNum 20) = Inr 20"
  by (simp_all add: parsePagingQueryInput_def parseTxQueryLimit_def parseBlockQueryLimit_def
      parseLimitQuery_def MAX_TXS_PER_REQUEST_def MAX_BLOCKS_PER_REQUEST_def rowHelpers_def
      sampleRead_def decimalValue_def digitValue_def)

lemma row_helpers:
  "isValidC32Address rowHelpers a = (take 2 a = ''SP'')"
  "parseDbMempoolTx rowHelpers (i, s, r) = JObj [(''tx_id'', JStr i)]"
  "getTxFromDataStore rowHelpers db q = Some (JObj [(''tx_id'', JStr (txId q))])"
  "parseTxTypeStrings rowHelpers ts = Inr ts"
  "isProdEnv rowHelpers"
  by (simp_all add: rowHelpers_def)

lemma sample_rows:
  "listedTxs sampleRows = [\<lparr>tx_id = ''0xaa''\<rparr>, \<lparr>tx_id = ''0xbb''\<rparr>, \<lparr>tx_id = ''0xab''\<rparr>]"
  "typeMatches sampleRows types tx = (types = [] \<or> take 3 (tx_id tx) \<in> set types)"
  "pendingTxs sampleRows =
     [(''0xcc'', ''SP1'', ''SP2''), (''0xdd'', ''SP2'', ''SP3''), (''0xde'', ''SP1'', ''SP3'')]"
  "addressMatches sampleRows sender recipient addr (i, s, r) =
     ((sender = None \<or> sender = Some s) \<and> (recipient = None \<or> recipient = Some r) \<and>
      (addr = None \<or> addr = Some s \<or> addr = Some r))"
  "droppedTxs sampleRows = [(''0xee'', ''SP4'', ''SP1'')]"
  by (simp_all add: sampleRows_def)

lemma sample_rewards_list:
  "getBurnchainRewards (queryService sampleRows)
     \<lparr>offset = 0, limit = 20, burnchainRecipient = None\<rparr> = rewardRows sampleRows"
  by (simp add: queryService_def sampleRows_def)

section \<open>The mempool list: address filters\<close>

lemma truthy_filterOf: "truthy (filterOf a) = truthy a"
  by (simp add: filterOf_def)

lemma addrParam_eq:
  "addrParam h p a =
     (if invalidAddr h a then Inl (invalidAddrMessage p (the a)) else Inr (filterOf a))"
  by (cases a) (simp_all add: addrParam_def invalidAddr_def filterOf_def)

lemma element_three:
  "element [a, b, c] 0 = a" "element [a, b, c] (Suc 0) = b" "element [a, b, c] 2 = c"
  by (simp_all add: element_def)

lemma mempoolRoute_paged:
  assumes "parseTxQueryLimit h (nullish (limit_q req) 96) = Inr lim"
    and "parsePagingQueryInput h (nullish (offset_q req) 0) = Inr off"
  shows "mempoolRoute h db req =
     (if invalidAddr h (sender_address_q req) then
        (Respond 400 (errorBody (''Error: '' @
           invalidAddrMessage ''sender_address'' (the (sender_address_q req)))), [])
      else if invalidAddr h (recipient_address_q req) then
        (Respond 400 (errorBody (''Error: '' @
           invalidAddrMessage ''recipient_address'' (the (recipient_address_q req)))), [])
      else if invalidAddr h (address_q req) then
        (Respond 400 (errorBody (''Error: '' @
           invalidAddrMessage ''address'' (the (address_q req)))), [])
      else if truthy (address_q req) \<and>
              (truthy (recipient_address_q req) \<or> truthy (sender_address_q req)) then
        (Respond 400 (errorBody addressFilterConflict), [])
      else
        (let args = \<lparr>offset = off, limit = lim,
                      senderAddress = filterOf (sender_address_q req),
                      recipientAddress = filterOf (recipient_address_q req),
                      address = filterOf (address_q req)\<rparr>;
             listed = getMempoolTxList db args
         in (Respond 200
               (listResponse lim off (total listed) (map (parseDbMempoolTx h) (results listed))),
             [GetMempoolTxList args])))"
  using assms
  by (simp add: mempoolRoute_def addrParam_eq element_three truthy_filterOf Let_def)

lemma mempoolRoute_unpaged:
  "parseTxQueryLimit h (nullish (limit_q req) 96) = Inl e \<Longrightarrow>
     mempoolRoute h db req = (Throws e, [])"
  "parseTxQueryLimit h (nullish (limit_q req) 96) = Inr lim \<Longrightarrow>
   parsePagingQueryInput h (nullish (offset_q req) 0) = Inl e \<Longrightarrow>
     mempoolRoute h db req = (Throws e, [])"
  by (simp_all add: mempoolRoute_def)

lemma mempoolRoute_rejected_calls:
  assumes "invalidAddr h (sender_address_q req) \<or> invalidAddr h (recipient_address_q req) \<or>
           invalidAddr h (address_q req) \<or>
           truthy (address_q req) \<and>
             (truthy (sender_address_q req) \<or> truthy (recipient_address_q req))"
  shows "snd (mempoolRoute h db req) = [] \<and> \<not> isResult (fst (mempoolRoute h db req))"
proof (cases "parseTxQueryLimit h (nullish (limit_q req) 96)")
  case (Inl e)
  then show ?thesis by (simp add: mempoolRoute_unpaged isResult_def)
next
  case lim: (Inr lim)
  show ?thesis
  proof (cases "parsePagingQueryInput h (nullish (offset_q req) 0)")
    case (Inl e)
    with lim show ?thesis by (simp add: mempoolRoute_unpaged isResult_def)
  next
    case (Inr off)
    with lim assms show ?thesis
      by (auto simp: mempoolRoute_paged isResult_def)
  qed
qed

text \<open>
  Claim C1. A mempool list request that carries the combined \<open>address\<close> filter together
  with \<open>sender_address\<close> or \<open>recipient_address\<close> (each present, that is non-empty)
  invokes no store operation and sends no result list; once its \<open>limit\<close> and \<open>offset\<close>
  have been accepted, which the handler checks first, the response is HTTP 400 with an error
  message, and that message is the one about the \<open>address\<close> filter when the addresses
  given are valid. A request with at most one kind of address filter, valid addresses and
  accepted pagination proceeds: \<open>getMempoolTxList\<close> is invoked once with these filters and
  its answer is sent as \<open>{limit, offset, total, results}\<close>.
\<close>

theorem mempool_address_filter_exclusive:
  "(truthy (address_q req) \<and>
      (truthy (sender_address_q req) \<or> truthy (recipient_address_q req)) \<longrightarrow>
        snd (mempoolRoute h db req) = [] \<and> \<not> isResult (fst (mempoolRoute h db req)) \<and>
        (parseTxQueryLimit h (nullish (limit_q req) 96) = Inr lim \<and>
         parsePagingQueryInput h (nullish (offset_q req) 0) = Inr off \<longrightarrow>
           (\<exists>msg. mempoolRoute h db req = (Respond 400 (errorBody msg), [])) \<and>
           (\<not> invalidAddr h (sender_address_q req) \<and>
            \<not> invalidAddr h (recipient_address_q req) \<and>
            \<not> invalidAddr h (address_q req) \<longrightarrow>
              mempoolRoute h db req = (Respond 400 (errorBody addressFilterConflict), []))))
   \<and>
   (\<not> (truthy (address_q req) \<and>
        (truthy (sender_address_q req) \<or> truthy (recipient_address_q req))) \<and>
    parseTxQueryLimit h (nullish (limit_q req) 96) = Inr lim \<and>
    parsePagingQueryInput h (nullish (offset_q req) 0) = Inr off \<and>
    \<not> invalidAddr h (sender_address_q req) \<and>
    \<not> invalidAddr h (recipient_address_q req) \<and>
    \<not> invalidAddr h (address_q req) \<longrightarrow>
      mempoolRoute h db req =
        (let args = \<lparr>offset = off, limit = lim,
                     senderAddress = filterOf (sender_address_q req),
                     recipientAddress = filterOf (recipient_address_q req),
                     address = filterOf (address_q req)\<rparr>;
             listed = getMempoolTxList db args
         in (Respond 200
               (listResponse lim off (total listed) (map (parseDbMempoolTx h) (results listed))),
             [GetMempoolTxList args])))"
proof (intro conjI impI)
  assume c: "truthy (address_q req) \<and>
      (truthy (sender_address_q req) \<or> truthy (recipient_address_q req))"
  from c show "snd (mempoolRoute h db req) = []"
    using mempoolRoute_rejected_calls [of h req db] by simp
  from c show "\<not> isResult (fst (mempoolRoute h db req))"
    using mempoolRoute_rejected_calls [of h req db] by simp
next
  assume c: "truthy (address_q req) \<and>
      (truthy (sender_address_q req) \<or> truthy (recipient_address_q req))"
    and p: "parseTxQueryLimit h (nullish (limit_q req) 96) = Inr lim \<and>
         parsePagingQueryInput h (nullish (offset_q req) 0) = Inr off"
  then show "\<exists>msg. mempoolRoute h db req = (Respond 400 (errorBody msg), [])"
    by (auto simp: mempoolRoute_paged)
next
  assume c: "truthy (address_q req) \<and>
      (truthy (sender_address_q req) \<or> truthy (recipient_address_q req))"
    and p: "parseTxQueryLimit h (nullish (limit_q req) 96) = Inr lim \<and>
         parsePagingQueryInput h (nullish (offset_q req) 0) = Inr off"
    and v: "\<not> invalidAddr h (sender_address_q req) \<and>
            \<not> invalidAddr h (recipient_address_q req) \<and>
            \<not> invalidAddr h (address_q req)"
  then show "mempoolRoute h db req = (Respond 400 (errorBody addressFilterConflict), [])"
    by (auto simp: mempoolRoute_paged)
next
  assume "\<not> (truthy (address_q req) \<and>
        (truthy (sender_address_q req) \<or> truthy (recipient_address_q req))) \<and>
    parseTxQueryLimit h (nullish (limit_q req) 96) = Inr lim \<and>
    parsePagingQueryInput h (nullish (offset_q req) 0) = Inr off \<and>
    \<not> invalidAddr h (sender_address_q req) \<and>
    \<not> invalidAddr h (recipient_address_q req) \<and>
    \<not> invalidAddr h (address_q req)"
  then show "mempoolRoute h db req =
        (let args = \<lparr>offset = off, limit = lim,
                     senderAddress = filterOf (sender_address_q req),
                     recipientAddress = filterOf (recipient_address_q req),
                     address = filterOf (address_q req)\<rparr>;
             listed = getMempoolTxList db args
         in (Respond 200
               (listResponse lim off (total listed) (map (parseDbMempoolTx h) (results listed))),
             [GetMempoolTxList args]))"
    by (auto simp: mempoolRoute_paged)
qed

theorem mempool_address_filter_exclusive_witness:
  "mempoolRoute sampleHelpers sampleStore
     (emptyRequest\<lparr>sender_address_q := Some ''SP2'', address_q := Some ''SP1''\<rparr>) =
     (Respond 400 (errorBody addressFilterConflict), []) \<and>
   mempoolRoute sampleHelpers sampleStore (emptyRequest\<lparr>address_q := Some ''SP1''\<rparr>) =
     (Respond 200
        (listResponse 96 0 2 [JObj [(''tx_id'', JStr ''0xcc'')], JObj [(''tx_id'', JStr ''0xdd'')]]),
      [GetMempoolTxList \<lparr>offset = 0, limit = 96, senderAddress = None,
                          recipientAddress = None, address = Some ''SP1''\<rparr>])"
  using
    mempool_address_filter_exclusive [of
      "emptyRequest\<lparr>sender_address_q := Some ''SP2'', address_q := Some ''SP1''\<rparr>"
      sampleHelpers sampleStore 96 0]
    mempool_address_filter_exclusive [of
      "emptyRequest\<lparr>address_q := Some ''SP1''\<rparr>" sampleHelpers sampleStore 96 0]
  by (simp add: emptyRequest_def nullish_def sample_paging sample_addr sample_mempool
      invalidAddr_def filterOf_def)

text \<open>
  Claim C8. A mempool list request in which one of \<open>sender_address\<close>,
  \<open>recipient_address\<close>, \<open>address\<close> is present (that is non-empty) and is not a valid
  C32 address invokes no store operation and sends no result list. Once \<open>limit\<close> and
  \<open>offset\<close> have been accepted, which the handler checks first, the response is HTTP 400
  with the error \<^verbatim>\<open>Error: Invalid query parameter for "p": "v" is not a valid STX address\<close>,
  where \<open>p\<close> is the name of the first invalid parameter, in the order above, and \<open>v\<close> its
  value. When every parameter passes and the filters are compatible, a parameter that is
  absent (or empty) gives no filter in the store query, a present one is passed as it is.
\<close>

theorem mempool_address_params_validated:
  \<open>(invalidAddr h (sender_address_q req) \<or> invalidAddr h (recipient_address_q req) \<or>
    invalidAddr h (address_q req) \<longrightarrow>
      snd (mempoolRoute h db req) = [] \<and> \<not> isResult (fst (mempoolRoute h db req)))
   \<and>
   (parseTxQueryLimit h (nullish (limit_q req) 96) = Inr lim \<and>
    parsePagingQueryInput h (nullish (offset_q req) 0) = Inr off \<longrightarrow>
      (sender_address_q req = Some a \<and> a \<noteq> [] \<and> \<not> isValidC32Address h a \<longrightarrow>
         mempoolRoute h db req =
           (Respond 400
              (JObj [(''error'',
                 JStr (''Error: Invalid query parameter for "sender_address": "'' @ a @
                       ''" is not a valid STX address''))]), [])) \<and>
      (\<not> invalidAddr h (sender_address_q req) \<and>
       recipient_address_q req = Some a \<and> a \<noteq> [] \<and> \<not> isValidC32Address h a \<longrightarrow>
         mempoolRoute h db req =
           (Respond 400
              (JObj [(''error'',
                 JStr (''Error: Invalid query parameter for "recipient_address": "'' @ a @
                       ''" is not a valid STX address''))]), [])) \<and>
      (\<not> invalidAddr h (sender_address_q req) \<and> \<not> invalidAddr h (recipient_address_q req) \<and>
       address_q req = Some a \<and> a \<noteq> [] \<and> \<not> isValidC32Address h a \<longrightarrow>
         mempoolRoute h db req =
           (Respond 400
              (JObj [(''error'',
                 JStr (''Error: Invalid query parameter for "address": "'' @ a @
                       ''" is not a valid STX address''))]), [])) \<and>
      (\<not> invalidAddr h (sender_address_q req) \<and> \<not> invalidAddr h (recipient_address_q req) \<and>
       \<not> invalidAddr h (address_q req) \<and>
       \<not> (truthy (address_q req) \<and>
           (truthy (sender_address_q req) \<or> truthy (recipient_address_q req))) \<longrightarrow>
         snd (mempoolRoute h db req) =
           [GetMempoolTxList
              \<lparr>offset = off, limit = lim,
               senderAddress =
                 (if truthy (sender_address_q req) then sender_address_q req else None),
               recipientAddress =
                 (if truthy (recipient_address_q req) then recipient_address_q req else None),
               address = (if truthy (address_q req) then address_q req else None)\<rparr>]))\<close>
proof (intro conjI impI)
  assume "invalidAddr h (sender_address_q req) \<or> invalidAddr h (recipient_address_q req) \<or>
    invalidAddr h (address_q req)"
  then have "snd (mempoolRoute h db req) = [] \<and> \<not> isResult (fst (mempoolRoute h db req))"
    by (intro mempoolRoute_rejected_calls) blast
  then show "snd (mempoolRoute h db req) = []" "\<not> isResult (fst (mempoolRoute h db req))"
    by simp_all
next
  assume p: "parseTxQueryLimit h (nullish (limit_q req) 96) = Inr lim \<and>
    parsePagingQueryInput h (nullish (offset_q req) 0) = Inr off"
  {
    assume "sender_address_q req = Some a \<and> a \<noteq> [] \<and> \<not> isValidC32Address h a"
    with p show \<open>mempoolRoute h db req =
           (Respond 400
              (JObj [(''error'',
                 JStr (''Error: Invalid query parameter for "sender_address": "'' @ a @
                       ''" is not a valid STX address''))]), [])\<close>
      by (simp add: mempoolRoute_paged invalidAddr_def invalidAddrMessage_def errorBody_def)
  next
    assume "\<not> invalidAddr h (sender_address_q req) \<and>
       recipient_address_q req = Some a \<and> a \<noteq> [] \<and> \<not> isValidC32Address h a"
    with p show \<open>mempoolRoute h db req =
           (Respond 400
              (JObj [(''error'',
                 JStr (''Error: Invalid query parameter for "recipient_address": "'' @ a @
                       ''" is not a valid STX address''))]), [])\<close>
      by (simp add: mempoolRoute_paged invalidAddr_def invalidAddrMessage_def errorBody_def)
  next
    assume "\<not> invalidAddr h (sender_address_q req) \<and> \<not> invalidAddr h (recipient_address_q req) \<and>
       address_q req = Some a \<and> a \<noteq> [] \<and> \<not> isValidC32Address h a"
    with p show \<open>mempoolRoute h db req =
           (Respond 400
              (JObj [(''error'',
                 JStr (''Error: Invalid query parameter for "address": "'' @ a @
                       ''" is not a valid STX address''))]), [])\<close>
      by (simp add: mempoolRoute_paged invalidAddr_def invalidAddrMessage_def errorBody_def)
  next
    assume "\<not> invalidAddr h (sender_address_q req) \<and> \<not> invalidAddr h (recipient_address_q req) \<and>
       \<not> invalidAddr h (address_q req) \<and>
       \<not> (truthy (address_q req) \<and>
           (truthy (sender_address_q req) \<or> truthy (recipient_address_q req)))"
    with p show "snd (mempoolRoute h db req) =
           [GetMempoolTxList
              \<lparr>offset = off, limit = lim,
               senderAddress =
                 (if truthy (sender_address_q req) then sender_address_q req else None),
               recipientAddress =
                 (if truthy (recipient_address_q req) then recipient_address_q req else None),
               address = (if truthy (address_q req) then address_q req else None)\<rparr>]"
      by (simp add: mempoolRoute_paged filterOf_def Let_def)
  }
qed

theorem mempool_address_params_validated_witness:
  \<open>mempoolRoute sampleHelpers sampleStore
     (emptyRequest\<lparr>recipient_address_q := Some ''XP1'', address_q := Some ''zz''\<rparr>) =
     (Respond 400
        (JObj [(''error'',
           JStr ''Error: Invalid query parameter for "recipient_address": "XP1" is not a valid STX address'')]),
      []) \<and>
   snd (mempoolRoute sampleHelpers sampleStore emptyRequest) =
     [GetMempoolTxList \<lparr>offset = 0, limit = 96, senderAddress = None,
                         recipientAddress = None, address = None\<rparr>]\<close>
  using
    mempool_address_params_validated [of sampleHelpers
      "emptyRequest\<lparr>recipient_address_q := Some ''XP1'', address_q := Some ''zz''\<rparr>"
      sampleStore 96 0 "''XP1''"]
    mempool_address_params_validated [of sampleHelpers emptyRequest sampleStore 96 0 "''XP1''"]
  by (simp add: emptyRequest_def nullish_def sample_paging sample_addr invalidAddr_def)

section \<open>A single transaction\<close>

text \<open>
  Claim C10. When the \<open>tx_id\<close> path parameter lacks the \<open>0x\<close> prefix, the handler
  redirects to the transaction path with \<open>0x\<close> put before the identifier; it looks
  nothing up in the store and raises no error.
\<close>

theorem txRoute_redirects_unprefixed:
  assumes "\<not> has0xPrefix h (tx_id_p req)"
  shows "txRoute h db req = (Redirect (''/extended/v1/tx/'' @ ''0x'' @ tx_id_p req), [])"
  using assms by (simp add: txRoute_def)

theorem txRoute_redirects_unprefixed_witness:
  "\<not> has0xPrefix sampleHelpers ''abc'' \<and>
   txRoute sampleHelpers sampleStore (emptyRequest\<lparr>tx_id_p := ''abc''\<rparr>) =
     (Redirect ''/extended/v1/tx/0xabc'', [])"
  using txRoute_redirects_unprefixed [of sampleHelpers "emptyRequest\<lparr>tx_id_p := ''abc''\<rparr>" sampleStore]
  by (simp add: sampleHelpers_def emptyRequest_def)

text \<open>
  Claim C4. For a \<open>0x\<close>-prefixed \<open>tx_id\<close> whose \<open>event_limit\<close> and \<open>event_offset\<close>
  have been accepted, the handler makes one lookup \<open>getTxFromDataStore\<close> with the
  identifier, the event limit and the event offset; when the transaction is found it is
  sent as the result, and when it is not the response is HTTP 404 with an error message
  that names the identifier.
\<close>

theorem txRoute_found_or_not_found:
  assumes "has0xPrefix h (tx_id_p req)"
    and "parseTxQueryEventsLimit h (nullish (event_limit_q req) 96) = Inr evLimit"
    and "parsePagingQueryInput h (nullish (event_offset_q req) 0) = Inr evOffset"
  shows "txRoute h db req =
     (let q = \<lparr>txId = tx_id_p req, eventLimit = Some evLimit, eventOffset = Some evOffset\<rparr> in
      case getTxFromDataStore h db q of
        Some tx \<Rightarrow> (Respond 200 tx, [GetTxFromDataStore q])
      | None \<Rightarrow>
          (Respond 404 (errorBody (''could not find transaction by ID '' @ tx_id_p req)),
           [GetTxFromDataStore q]))"
  using assms by (simp add: txRoute_def Let_def split: option.split)

theorem txRoute_found_or_not_found_witness:
  "txRoute sampleHelpers sampleStore (emptyRequest\<lparr>tx_id_p := ''0xaa''\<rparr>) =
     (Respond 200 (JObj [(''tx_id'', JStr ''0xaa'')]),
      [GetTxFromDataStore \<lparr>txId = ''0xaa'', eventLimit = Some 96, eventOffset = Some 0\<rparr>]) \<and>
   txRoute sampleHelpers sampleStore (emptyRequest\<lparr>tx_id_p := ''0xff''\<rparr>) =
     (Respond 404 (JObj [(''error'', JStr ''could not find transaction by ID 0xff'')]),
      [GetTxFromDataStore \<lparr>txId = ''0xff'', eventLimit = Some 96, eventOffset = Some 0\<rparr>])"
  using txRoute_found_or_not_found [of sampleHelpers "emptyRequest\<lparr>tx_id_p := ''0xaa''\<rparr>" 96 0 sampleStore]
    txRoute_found_or_not_found [of sampleHelpers "emptyRequest\<lparr>tx_id_p := ''0xff''\<rparr>" 96 0 sampleStore]
  by (simp add: sampleHelpers_def emptyRequest_def parseTxQueryEventsLimit_def
      sample_limit_default MAX_EVENTS_PER_REQUEST_def nullish_def parsePagingQueryInput_def
      errorBody_def)

section \<open>Trimmed strings and burnchain addresses\<close>

lemma burnchainAddressOf_bitcoin:
  "isValidBitcoinAddress h (trim a) \<Longrightarrow> burnchainAddressOf h a = Some (trim a)"
  by (simp add: burnchainAddressOf_def)

lemma burnchainAddressOf_converted:
  "\<not> isValidBitcoinAddress h (trim a) \<Longrightarrow> tryConvertC32ToBtc h (trim a) = Some c \<Longrightarrow> c \<noteq> [] \<Longrightarrow>
     burnchainAddressOf h a = Some c"
  by (simp add: burnchainAddressOf_def)

lemma burnchainAddressOf_neither:
  "\<not> isValidBitcoinAddress h (trim a) \<Longrightarrow> \<not> truthy (tryConvertC32ToBtc h (trim a)) \<Longrightarrow>
     burnchainAddressOf h a = None"
  by (simp add: burnchainAddressOf_def)

lemma rewardsTotalRoute_accepted:
  assumes "burnchainAddressOf h (address_p req) = Some b" and "b \<noteq> []"
  shows "rewardsTotalRoute h db req =
     (Respond 200
        (JObj [(''reward_recipient'', JStr (reward_recipient (getBurnchainRewardsTotal db b))),
               (''reward_amount'',
                JStr (toString (reward_amount (getBurnchainRewardsTotal db b))))]),
      [GetBurnchainRewardsTotal b])"
  using assms by (simp add: rewardsTotalRoute_def Let_def)

lemma rewardsTotalRoute_rejected:
  assumes "\<not> truthy (burnchainAddressOf h (address_p req))"
  shows "rewardsTotalRoute h db req =
     (Respond 400
        (JObj [(''error'', JStr (''Address '' @ trim (address_p req) @
                    '' is not a valid Bitcoin or STX address.''))]), [])"
  using assms
  by (cases "burnchainAddressOf h (address_p req)")
    (simp_all add: rewardsTotalRoute_def invalidAddressBody_def errorBody_def)

lemma rewardsAddressRoute_paged:
  assumes "parseBlockQueryLimit h (nullish (limit_q req) 20) = Inr lim"
    and "parsePagingQueryInput h (nullish (offset_q req) 0) = Inr off"
  shows "rewardsAddressRoute h db req =
     (if \<not> truthy (burnchainAddressOf h (address_p req)) then
        (Respond 400
           (JObj [(''error'', JStr (''Address '' @ trim (address_p req) @
                       '' is not a valid Bitcoin or STX address.''))]), [])
      else
        (Respond 200
           (JObj [(''limit'', JNum (int lim)), (''offset'', JNum (int off)),
                  (''results'',
                   JArr (map rewardJson
                     (getBurnchainRewards db
                        \<lparr>offset = off, limit = lim,
                         burnchainRecipient = burnchainAddressOf h (address_p req)\<rparr>)))]),
         [GetBurnchainRewards
            \<lparr>offset = off, limit = lim,
             burnchainRecipient = burnchainAddressOf h (address_p req)\<rparr>]))"
  using assms
  by (simp add: rewardsAddressRoute_def Let_def invalidAddressBody_def errorBody_def
      rewardListResponse_def)

lemma rewardsAddressRoute_rejected_calls:
  assumes "\<not> truthy (burnchainAddressOf h (address_p req))"
  shows "snd (rewardsAddressRoute h db req) = []"
  using assms by (simp add: rewardsAddressRoute_def Let_def split: sum.split)

lemma trim_decomposition:
  "\<exists>pre post. s = pre @ trim s @ post \<and> list_all isWhiteSpace pre \<and> list_all isWhiteSpace post"
proof -
  let ?rest = "dropWhile isWhiteSpace s"
  let ?pre = "takeWhile isWhiteSpace s"
  let ?post = "rev (takeWhile isWhiteSpace (rev ?rest))"
  have "rev (takeWhile isWhiteSpace (rev ?rest) @ dropWhile isWhiteSpace (rev ?rest)) =
      rev (rev ?rest)"
    by (simp only: takeWhile_dropWhile_id)
  then have "rev (dropWhile isWhiteSpace (rev ?rest)) @ ?post = ?rest"
    by (simp only: rev_append rev_rev_ident)
  then have "?rest = trim s @ ?post"
    by (simp only: trim_def)
  then have "s = ?pre @ trim s @ ?post"
    by (metis takeWhile_dropWhile_id)
  moreover have "list_all isWhiteSpace ?pre"
    by (simp add: list_all_iff) (meson set_takeWhileD)
  moreover have "list_all isWhiteSpace ?post"
    by (simp add: list_all_iff) (meson set_takeWhileD)
  ultimately show ?thesis by blast
qed

lemma trim_ends:
  assumes "trim s \<noteq> []"
  shows "\<not> isWhiteSpace (hd (trim s)) \<and> \<not> isWhiteSpace (last (trim s))"
proof -
  let ?rest = "dropWhile isWhiteSpace s"
  let ?d = "dropWhile isWhiteSpace (rev ?rest)"
  from assms have d: "?d \<noteq> []" by (simp add: trim_def)
  have rest: "?rest \<noteq> []"
  proof
    assume empty: "?rest = []"
    have "?d = dropWhile isWhiteSpace (rev [])" by (simp only: empty)
    with d show False by simp
  qed
  have "last (trim s) = hd ?d"
    using d by (simp add: trim_def last_rev)
  moreover have "\<not> isWhiteSpace (hd ?d)"
    using d by (rule hd_dropWhile)
  moreover have "hd (trim s) = last ?d"
    using d by (simp add: trim_def hd_rev)
  moreover have "last ?d = last (rev ?rest)"
  proof -
    have "rev ?rest = takeWhile isWhiteSpace (rev ?rest) @ ?d" by simp
    then have "last (rev ?rest) = last (takeWhile isWhiteSpace (rev ?rest) @ ?d)" by simp
    also have "\<dots> = last ?d" using d by (rule last_appendR)
    finally show ?thesis by simp
  qed
  moreover have "last (rev ?rest) = hd ?rest"
    using rest by (simp add: last_rev)
  moreover have "\<not> isWhiteSpace (hd ?rest)"
    using rest by (rule hd_dropWhile)
  ultimately show ?thesis by simp
qed

lemma isWhiteSpace_iff:
  "isWhiteSpace c \<longleftrightarrow>
     c = CHR 0x09 \<or> c = CHR 0x0A \<or> c = CHR 0x0B \<or> c = CHR 0x0C \<or> c = CHR 0x0D \<or>
     c = CHR 0x20 \<or> c = CHR 0xA0"
  by (simp add: isWhiteSpace_def)

lemma decimal_digits: "list_all (\<lambda>c. c \<in> set ''0123456789'') (decimal n)"
proof (induction n rule: decimal.induct)
  case (1 n)
  have digit: "digitChar d \<in> set ''0123456789''" if "d < 10" for d
    using digit_cases [OF that] by (elim disjE; simp add: digitChar_def)
  show ?case
  proof (cases "n < 10")
    case True
    with digit [of n] show ?thesis by (subst decimal.simps) simp
  next
    case False
    with 1 have "list_all (\<lambda>c. c \<in> set ''0123456789'') (decimal (n div 10))" by simp
    with False digit [of "n mod 10"] show ?thesis
      by (subst decimal.simps) simp
  qed
qed

lemma toString_chars: "list_all (\<lambda>c. c \<in> set ''-0123456789'') (toString i)"
proof -
  have "list_all (\<lambda>c. c \<in> set ''-0123456789'') (decimal n)" for n
    using decimal_digits [of n] by (auto simp: list_all_iff)
  then show ?thesis by (simp add: toString_def)
qed

section \<open>List routes with accepted pagination\<close>

lemma droppedRoute_paged:
  assumes "parseTxQueryLimit h (nullish (limit_q req) 96) = Inr lim"
    and "parsePagingQueryInput h (nullish (offset_q req) 0) = Inr off"
  shows "droppedRoute h db req =
     (Respond 200
        (JObj [(''limit'', JNum (int lim)), (''offset'', JNum (int off)),
               (''total'', JNum (int (total (getDroppedTxs db \<lparr>offset = off, limit = lim\<rparr>)))),
               (''results'',
                JArr (map (parseDbMempoolTx h)
                  (results (getDroppedTxs db \<lparr>offset = off, limit = lim\<rparr>))))]),
      [GetDroppedTxs \<lparr>offset = off, limit = lim\<rparr>])"
  using assms by (simp add: droppedRoute_def Let_def listResponse_def)

lemma mempoolRoute_accepted:
  assumes "parseTxQueryLimit h (nullish (limit_q req) 96) = Inr lim"
    and "parsePagingQueryInput h (nullish (offset_q req) 0) = Inr off"
    and "\<not> invalidAddr h (sender_address_q req)"
    and "\<not> invalidAddr h (recipient_address_q req)"
    and "\<not> invalidAddr h (address_q req)"
    and "\<not> (truthy (address_q req) \<and>
            (truthy (recipient_address_q req) \<or> truthy (sender_address_q req)))"
    and "args = \<lparr>offset = off, limit = lim, senderAddress = filterOf (sender_address_q req),
                 recipientAddress = filterOf (recipient_address_q req),
                 address = filterOf (address_q req)\<rparr>"
  shows "mempoolRoute h db req =
     (Respond 200
        (JObj [(''limit'', JNum (int lim)), (''offset'', JNum (int off)),
               (''total'', JNum (int (total (getMempoolTxList db args)))),
               (''results'',
                JArr (map (parseDbMempoolTx h) (results (getMempoolTxList db args))))]),
      [GetMempoolTxList args])"
  using assms by (simp add: mempoolRoute_paged Let_def listResponse_def)

lemma rewardsRoute_paged:
  assumes "parseBlockQueryLimit h (nullish (limit_q req) 20) = Inr lim"
    and "parsePagingQueryInput h (nullish (offset_q req) 0) = Inr off"
  shows "rewardsRoute h db req =
     (Respond 200
        (JObj [(''limit'', JNum (int lim)), (''offset'', JNum (int off)),
               (''results'',
                JArr (map rewardJson
                  (getBurnchainRewards db
                     \<lparr>offset = off, limit = lim, burnchainRecipient = None\<rparr>)))]),
      [GetBurnchainRewards \<lparr>offset = off, limit = lim, burnchainRecipient = None\<rparr>])"
  using assms by (simp add: rewardsRoute_def Let_def rewardListResponse_def)

lemma rewardsAddressRoute_accepted:
  assumes "parseBlockQueryLimit h (nullish (limit_q req) 20) = Inr lim"
    and "parsePagingQueryInput h (nullish (offset_q req) 0) = Inr off"
    and "burnchainAddressOf h (address_p req) = Some b" and "b \<noteq> []"
  shows "rewardsAddressRoute h db req =
     (Respond 200
        (JObj [(''limit'', JNum (int lim)), (''offset'', JNum (int off)),
               (''results'',
                JArr (map rewardJson
                  (getBurnchainRewards db
                     \<lparr>offset = off, limit = lim, burnchainRecipient = Some b\<rparr>)))]),
      [GetBurnchainRewards \<lparr>offset = off, limit = lim, burnchainRecipient = Some b\<rparr>])"
  using assms by (simp add: rewardsAddressRoute_paged)

lemma txListRoute_paged:
  assumes "parseTxQueryLimit h (nullish (limit_q req) 96) = Inr lim"
    and "parsePagingQueryInput h (nullish (offset_q req) 0) = Inr off"
    and "txTypeFilterOf h (type_q req) = Inr flt"
  shows "(\<exists>calls. snd (txListRoute h db req) =
            GetTxList \<lparr>offset = off, limit = lim, txTypeFilter = flt\<rparr> # calls) \<and>
         (isResult (fst (txListRoute h db req)) \<longrightarrow>
            (\<exists>rs. mapSeriesTxQuery h db
                     (results (getTxList db \<lparr>offset = off, limit = lim, txTypeFilter = flt\<rparr>)) =
                     (Inr rs, tl (snd (txListRoute h db req))) \<and>
                   fst (txListRoute h db req) =
                     Respond 200
                       (JObj [(''limit'', JNum (int lim)), (''offset'', JNum (int off)),
                              (''total'', JNum (int (total (getTxList db
                                  \<lparr>offset = off, limit = lim, txTypeFilter = flt\<rparr>)))),
                              (''results'', JArr rs)])))"
  using assms
  by (auto simp: txListRoute_def Let_def isResult_def listResponse_def
      split: prod.split sum.split option.split)

lemma txRoute_calls:
  assumes "has0xPrefix h (tx_id_p req)"
    and "parseTxQueryEventsLimit h (nullish (event_limit_q req) 96) = Inr el"
    and "parsePagingQueryInput h (nullish (event_offset_q req) 0) = Inr eo"
  shows "snd (txRoute h db req) =
     [GetTxFromDataStore \<lparr>txId = tx_id_p req, eventLimit = Some el, eventOffset = Some eo\<rparr>]"
  using assms by (simp add: txRoute_def Let_def split: option.split)

section \<open>Limits\<close>

lemma parseLimitQuery_over:
  "parse v = Inr n \<Longrightarrow> m < n \<Longrightarrow> parseLimitQuery parse m msg v = Inl (ClientError msg)"
  by (simp add: parseLimitQuery_def)

lemma parseLimitQuery_within:
  "parse v = Inr n \<Longrightarrow> n \<le> m \<Longrightarrow> parseLimitQuery parse m msg v = Inr n"
  by (simp add: parseLimitQuery_def)

lemma tx_limit_over:
  assumes "parsePagingQueryInput h v = Inr n" and "200 < n"
  shows "parseTxQueryLimit h v = Inl (ClientError ''`limit` must be equal to or less than 200'')"
  using assms
  by (simp add: parseTxQueryLimit_def MAX_TXS_PER_REQUEST_def parseLimitQuery_over decimal_200)

lemma events_limit_over:
  assumes "parsePagingQueryInput h v = Inr n" and "200 < n"
  shows "parseTxQueryEventsLimit h v =
    Inl (ClientError ''`event_limit` must be equal to or less than 200'')"
  using assms
  by (simp add: parseTxQueryEventsLimit_def MAX_EVENTS_PER_REQUEST_def parseLimitQuery_over
      decimal_200)

lemma block_limit_over:
  assumes "parsePagingQueryInput h v = Inr n" and "30 < n"
  shows "parseBlockQueryLimit h v = Inl (ClientError ''`limit` must be equal to or less than 30'')"
  using assms
  by (simp add: parseBlockQueryLimit_def MAX_BLOCKS_PER_REQUEST_def parseLimitQuery_over
      decimal_30)

lemma limit_within:
  assumes "parsePagingQueryInput h v = Inr n"
  shows "n \<le> 200 \<Longrightarrow> parseTxQueryLimit h v = Inr n"
    and "n \<le> 200 \<Longrightarrow> parseTxQueryEventsLimit h v = Inr n"
    and "n \<le> 30 \<Longrightarrow> parseBlockQueryLimit h v = Inr n"
  using assms
  by (simp_all add: parseTxQueryLimit_def parseTxQueryEventsLimit_def parseBlockQueryLimit_def
      MAX_TXS_PER_REQUEST_def MAX_EVENTS_PER_REQUEST_def MAX_BLOCKS_PER_REQUEST_def
      parseLimitQuery_within)

lemma limit_defaults:
  "parseTxQueryLimit h (nullish None 96) = Inr 96"
  "parseTxQueryEventsLimit h (nullish None 96) = Inr 96"
  "parseBlockQueryLimit h (nullish None 20) = Inr 20"
  by (simp_all add: nullish_def limit_within parsePagingQueryInput_def)

text \<open>
  Claim C3, as stated, fails on the events of a single transaction: with \<open>event_limit\<close>
  201 and an identifier without the \<open>0x\<close> prefix the response is a redirect, not a client
  error. The redirect does not carry the query string, and the request it leads to is
  answered with the transaction.
\<close>

theorem event_limit_over_maximum_redirected:
  "parsePagingQueryInput sampleHelpers (PQuery (QStr ''201'')) = Inr 201 \<and>
   txRoute sampleHelpers sampleStore
     (emptyRequest\<lparr>event_limit_q := Some (QStr ''201''), tx_id_p := ''aa''\<rparr>) =
     (Redirect ''/extended/v1/tx/0xaa'', []) \<and>
   txRoute sampleHelpers sampleStore (emptyRequest\<lparr>tx_id_p := ''0xaa''\<rparr>) =
     (Respond 200 (JObj [(''tx_id'', JStr ''0xaa'')]),
      [GetTxFromDataStore \<lparr>txId = ''0xaa'', eventLimit = Some 96, eventOffset = Some 0\<rparr>])"
  by (simp add: sample_query_number txRoute_def emptyRequest_def sample_prefix nullish_def
      sample_paging sample_lookup)

text \<open>
  Claim C3, amended. On every list endpoint a \<open>limit\<close> that reads as a number above the
  endpoint's maximum is rejected with a client error carrying the endpoint's message, before
  any store operation and instead of any result: the maximum is 200 for the transaction
  list, the mempool list and the dropped list, and 30 for both burnchain reward lists; a
  value up to the maximum is accepted as it is. For the events of a single transaction the
  maximum of \<open>event_limit\<close> is 200 and the client error is given when the identifier
  carries the \<open>0x\<close> prefix; an identifier without the prefix is redirected before
  \<open>event_limit\<close> is read, which gives no result and no store operation either. When the
  parameter is omitted the default applies: the store is queried with the limit 96 (20 for
  the burnchain reward lists), and the response reports that limit.
\<close>

theorem limit_maximum_and_default:
  "(limit_q req = Some q \<and> parsePagingQueryInput h (PQuery q) = Inr n \<and> 200 < n \<longrightarrow>
      txListRoute h db req =
        (Throws (ClientError ''`limit` must be equal to or less than 200''), []) \<and>
      mempoolRoute h db req =
        (Throws (ClientError ''`limit` must be equal to or less than 200''), []) \<and>
      droppedRoute h db req =
        (Throws (ClientError ''`limit` must be equal to or less than 200''), []))
   \<and>
   (event_limit_q req = Some q \<and> parsePagingQueryInput h (PQuery q) = Inr n \<and> 200 < n \<longrightarrow>
      snd (txRoute h db req) = [] \<and> \<not> isResult (fst (txRoute h db req)) \<and>
      (has0xPrefix h (tx_id_p req) \<longrightarrow>
         txRoute h db req =
           (Throws (ClientError ''`event_limit` must be equal to or less than 200''), [])) \<and>
      (\<not> has0xPrefix h (tx_id_p req) \<longrightarrow>
         txRoute h db req = (Redirect (''/extended/v1/tx/0x'' @ tx_id_p req), [])))
   \<and>
   (limit_q req = Some q \<and> parsePagingQueryInput h (PQuery q) = Inr n \<and> 30 < n \<longrightarrow>
      rewardsRoute h db req =
        (Throws (ClientError ''`limit` must be equal to or less than 30''), []) \<and>
      rewardsAddressRoute h db req =
        (Throws (ClientError ''`limit` must be equal to or less than 30''), []))
   \<and>
   (parsePagingQueryInput h (PQuery q) = Inr n \<longrightarrow>
      (n \<le> 200 \<longrightarrow> parseTxQueryLimit h (PQuery q) = Inr n \<and>
                     parseTxQueryEventsLimit h (PQuery q) = Inr n) \<and>
      (n \<le> 30 \<longrightarrow> parseBlockQueryLimit h (PQuery q) = Inr n))
   \<and>
   (limit_q req = None \<and> parsePagingQueryInput h (nullish (offset_q req) 0) = Inr off \<longrightarrow>
      droppedRoute h db req =
        (Respond 200
           (JObj [(''limit'', JNum 96), (''offset'', JNum (int off)),
                  (''total'', JNum (int (total (getDroppedTxs db \<lparr>offset = off, limit = 96\<rparr>)))),
                  (''results'',
                   JArr (map (parseDbMempoolTx h)
                     (results (getDroppedTxs db \<lparr>offset = off, limit = 96\<rparr>))))]),
         [GetDroppedTxs \<lparr>offset = off, limit = 96\<rparr>]) \<and>
      (\<not> invalidAddr h (sender_address_q req) \<and> \<not> invalidAddr h (recipient_address_q req) \<and>
       \<not> invalidAddr h (address_q req) \<and>
       \<not> (truthy (address_q req) \<and>
            (truthy (recipient_address_q req) \<or> truthy (sender_address_q req))) \<and>
       margs = \<lparr>offset = off, limit = 96, senderAddress = filterOf (sender_address_q req),
                 recipientAddress = filterOf (recipient_address_q req),
                 address = filterOf (address_q req)\<rparr> \<longrightarrow>
         mempoolRoute h db req =
           (Respond 200
              (JObj [(''limit'', JNum 96), (''offset'', JNum (int off)),
                     (''total'', JNum (int (total (getMempoolTxList db margs)))),
                     (''results'',
                      JArr (map (parseDbMempoolTx h) (results (getMempoolTxList db margs))))]),
            [GetMempoolTxList margs])) \<and>
      (txTypeFilterOf h (type_q req) = Inr flt \<longrightarrow>
         (\<exists>calls. snd (txListRoute h db req) =
            GetTxList \<lparr>offset = off, limit = 96, txTypeFilter = flt\<rparr> # calls) \<and>
         (isResult (fst (txListRoute h db req)) \<longrightarrow>
            (\<exists>rs. fst (txListRoute h db req) =
               Respond 200
                 (JObj [(''limit'', JNum 96), (''offset'', JNum (int off)),
                        (''total'', JNum (int (total (getTxList db
                            \<lparr>offset = off, limit = 96, txTypeFilter = flt\<rparr>)))),
                        (''results'', JArr rs)])))) \<and>
      rewardsRoute h db req =
        (Respond 200
           (JObj [(''limit'', JNum 20), (''offset'', JNum (int off)),
                  (''results'',
                   JArr (map rewardJson
                     (getBurnchainRewards db
                        \<lparr>offset = off, limit = 20, burnchainRecipient = None\<rparr>)))]),
         [GetBurnchainRewards \<lparr>offset = off, limit = 20, burnchainRecipient = None\<rparr>]) \<and>
      (burnchainAddressOf h (address_p req) = Some b \<and> b \<noteq> [] \<longrightarrow>
         rewardsAddressRoute h db req =
           (Respond 200
              (JObj [(''limit'', JNum 20), (''offset'', JNum (int off)),
                     (''results'',
                      JArr (map rewardJson
                        (getBurnchainRewards db
                           \<lparr>offset = off, limit = 20, burnchainRecipient = Some b\<rparr>)))]),
            [GetBurnchainRewards \<lparr>offset = off, limit = 20, burnchainRecipient = Some b\<rparr>])))
   \<and>
   (event_limit_q req = None \<and> has0xPrefix h (tx_id_p req) \<and>
    parsePagingQueryInput h (nullish (event_offset_q req) 0) = Inr eo \<longrightarrow>
      snd (txRoute h db req) =
        [GetTxFromDataStore
           \<lparr>txId = tx_id_p req, eventLimit = Some 96, eventOffset = Some eo\<rparr>])"
proof (intro conjI impI)
  assume a: "limit_q req = Some q \<and> parsePagingQueryInput h (PQuery q) = Inr n \<and> 200 < n"
  then have "parseTxQueryLimit h (nullish (limit_q req) 96) =
      Inl (ClientError ''`limit` must be equal to or less than 200'')"
    by (simp add: nullish_def tx_limit_over)
  then show
    "txListRoute h db req = (Throws (ClientError ''`limit` must be equal to or less than 200''), [])"
    "mempoolRoute h db req = (Throws (ClientError ''`limit` must be equal to or less than 200''), [])"
    "droppedRoute h db req = (Throws (ClientError ''`limit` must be equal to or less than 200''), [])"
    by (simp_all add: txListRoute_def mempoolRoute_def droppedRoute_def)
next
  assume a: "event_limit_q req = Some q \<and> parsePagingQueryInput h (PQuery q) = Inr n \<and> 200 < n"
  then have over: "parseTxQueryEventsLimit h (nullish (event_limit_q req) 96) =
      Inl (ClientError ''`event_limit` must be equal to or less than 200'')"
    by (simp add: nullish_def events_limit_over)
  then show "snd (txRoute h db req) = []" "\<not> isResult (fst (txRoute h db req))"
    by (simp_all add: txRoute_def isResult_def)
  {
    assume "has0xPrefix h (tx_id_p req)"
    with over show "txRoute h db req =
        (Throws (ClientError ''`event_limit` must be equal to or less than 200''), [])"
      by (simp add: txRoute_def)
  }
  {
    assume "\<not> has0xPrefix h (tx_id_p req)"
    then show "txRoute h db req = (Redirect (''/extended/v1/tx/0x'' @ tx_id_p req), [])"
      by (simp add: txRoute_def)
  }
next
  assume a: "limit_q req = Some q \<and> parsePagingQueryInput h (PQuery q) = Inr n \<and> 30 < n"
  then have "parseBlockQueryLimit h (nullish (limit_q req) 20) =
      Inl (ClientError ''`limit` must be equal to or less than 30'')"
    by (simp add: nullish_def block_limit_over)
  then show
    "rewardsRoute h db req = (Throws (ClientError ''`limit` must be equal to or less than 30''), [])"
    "rewardsAddressRoute h db req =
       (Throws (ClientError ''`limit` must be equal to or less than 30''), [])"
    by (simp_all add: rewardsRoute_def rewardsAddressRoute_def)
next
  assume p: "parsePagingQueryInput h (PQuery q) = Inr n"
  {
    assume "n \<le> 200"
    with p show "parseTxQueryLimit h (PQuery q) = Inr n"
      "parseTxQueryEventsLimit h (PQuery q) = Inr n"
      by (simp_all add: limit_within)
  }
  {
    assume "n \<le> 30"
    with p show "parseBlockQueryLimit h (PQuery q) = Inr n"
      by (simp add: limit_within)
  }
next
  assume a: "limit_q req = None \<and> parsePagingQueryInput h (nullish (offset_q req) 0) = Inr off"
  then have lim: "parseTxQueryLimit h (nullish (limit_q req) 96) = Inr 96"
    and blim: "parseBlockQueryLimit h (nullish (limit_q req) 20) = Inr 20"
    and off: "parsePagingQueryInput h (nullish (offset_q req) 0) = Inr off"
    by (simp_all add: limit_defaults)
  from droppedRoute_paged [OF lim off]
  show "droppedRoute h db req =
        (Respond 200
           (JObj [(''limit'', JNum 96), (''offset'', JNum (int off)),
                  (''total'', JNum (int (total (getDroppedTxs db \<lparr>offset = off, limit = 96\<rparr>)))),
                  (''results'',
                   JArr (map (parseDbMempoolTx h)
                     (results (getDroppedTxs db \<lparr>offset = off, limit = 96\<rparr>))))]),
         [GetDroppedTxs \<lparr>offset = off, limit = 96\<rparr>])"
    by simp
  from rewardsRoute_paged [OF blim off]
  show "rewardsRoute h db req =
        (Respond 200
           (JObj [(''limit'', JNum 20), (''offset'', JNum (int off)),
                  (''results'',
                   JArr (map rewardJson
                     (getBurnchainRewards db
                        \<lparr>offset = off, limit = 20, burnchainRecipient = None\<rparr>)))]),
         [GetBurnchainRewards \<lparr>offset = off, limit = 20, burnchainRecipient = None\<rparr>])"
    by simp
  {
    assume m: "\<not> invalidAddr h (sender_address_q req) \<and>
       \<not> invalidAddr h (recipient_address_q req) \<and> \<not> invalidAddr h (address_q req) \<and>
       \<not> (truthy (address_q req) \<and>
            (truthy (recipient_address_q req) \<or> truthy (sender_address_q req))) \<and>
       margs = \<lparr>offset = off, limit = 96, senderAddress = filterOf (sender_address_q req),
                 recipientAddress = filterOf (recipient_address_q req),
                 address = filterOf (address_q req)\<rparr>"
    then have "mempoolRoute h db req =
           (Respond 200
              (JObj [(''limit'', JNum (int 96)), (''offset'', JNum (int off)),
                     (''total'', JNum (int (total (getMempoolTxList db margs)))),
                     (''results'',
                      JArr (map (parseDbMempoolTx h) (results (getMempoolTxList db margs))))]),
            [GetMempoolTxList margs])"
      by (intro mempoolRoute_accepted [OF lim off]) simp_all
    then show "mempoolRoute h db req =
           (Respond 200
              (JObj [(''limit'', JNum 96), (''offset'', JNum (int off)),
                     (''total'', JNum (int (total (getMempoolTxList db margs)))),
                     (''results'',
                      JArr (map (parseDbMempoolTx h) (results (getMempoolTxList db margs))))]),
            [GetMempoolTxList margs])"
      by simp
  }
  {
    assume f: "txTypeFilterOf h (type_q req) = Inr flt"
    from txListRoute_paged [OF lim off f, of db]
    show "\<exists>calls. snd (txListRoute h db req) =
            GetTxList \<lparr>offset = off, limit = 96, txTypeFilter = flt\<rparr> # calls"
      by simp
    assume "isResult (fst (txListRoute h db req))"
    with txListRoute_paged [OF lim off f, of db]
    show "\<exists>rs. fst (txListRoute h db req) =
               Respond 200
                 (JObj [(''limit'', JNum 96), (''offset'', JNum (int off)),
                        (''total'', JNum (int (total (getTxList db
                            \<lparr>offset = off, limit = 96, txTypeFilter = flt\<rparr>)))),
                        (''results'', JArr rs)])"
      by auto
  }
  {
    assume "burnchainAddressOf h (address_p req) = Some b \<and> b \<noteq> []"
    with rewardsAddressRoute_accepted [OF blim off, of b db]
    show "rewardsAddressRoute h db req =
           (Respond 200
              (JObj [(''limit'', JNum 20), (''offset'', JNum (int off)),
                     (''results'',
                      JArr (map rewardJson
                        (getBurnchainRewards db
                           \<lparr>offset = off, limit = 20, burnchainRecipient = Some b\<rparr>)))]),
            [GetBurnchainRewards \<lparr>offset = off, limit = 20, burnchainRecipient = Some b\<rparr>])"
      by simp
  }
next
  assume a: "event_limit_q req = None \<and> has0xPrefix h (tx_id_p req) \<and>
    parsePagingQueryInput h (nullish (event_offset_q req) 0) = Inr eo"
  then have "parseTxQueryEventsLimit h (nullish (event_limit_q req) 96) = Inr 96"
    by (simp add: limit_defaults)
  with a show "snd (txRoute h db req) =
        [GetTxFromDataStore
           \<lparr>txId = tx_id_p req, eventLimit = Some 96, eventOffset = Some eo\<rparr>]"
    by (simp add: txRoute_calls)
qed

theorem limit_maximum_and_default_witness:
  "droppedRoute sampleHelpers sampleStore (emptyRequest\<lparr>limit_q := Some (QStr ''201'')\<rparr>) =
     (Throws (ClientError ''`limit` must be equal to or less than 200''), []) \<and>
   txRoute sampleHelpers sampleStore
     (emptyRequest\<lparr>event_limit_q := Some (QStr ''201''), tx_id_p := ''0xaa''\<rparr>) =
     (Throws (ClientError ''`event_limit` must be equal to or less than 200''), []) \<and>
   rewardsRoute sampleHelpers sampleStore (emptyRequest\<lparr>limit_q := Some (QStr ''31'')\<rparr>) =
     (Throws (ClientError ''`limit` must be equal to or less than 30''), []) \<and>
   parseTxQueryLimit sampleHelpers (PQuery (QStr ''200'')) = Inr 200 \<and>
   droppedRoute sampleHelpers sampleStore emptyRequest =
     (Respond 200
        (JObj [(''limit'', JNum 96), (''offset'', JNum 0), (''total'', JNum 1),
               (''results'', JArr [JObj [(''tx_id'', JStr ''0xee'')]])]),
      [GetDroppedTxs \<lparr>offset = 0, limit = 96\<rparr>]) \<and>
   rewardsRoute sampleHelpers sampleStore emptyRequest =
     (Respond 200
        (JObj [(''limit'', JNum 20), (''offset'', JNum 0),
               (''results'', JArr [rewardJson sampleReward])]),
      [GetBurnchainRewards \<lparr>offset = 0, limit = 20, burnchainRecipient = None\<rparr>]) \<and>
   snd (txRoute sampleHelpers sampleStore (emptyRequest\<lparr>tx_id_p := ''0xaa''\<rparr>)) =
     [GetTxFromDataStore \<lparr>txId = ''0xaa'', eventLimit = Some 96, eventOffset = Some 0\<rparr>]"
  using
    limit_maximum_and_default [where req = "emptyRequest\<lparr>limit_q := Some (QStr ''201'')\<rparr>"
      and q = "QStr ''201''" and h = sampleHelpers and n = 201 and db = sampleStore]
    limit_maximum_and_default [where
      req = "emptyRequest\<lparr>event_limit_q := Some (QStr ''201''), tx_id_p := ''0xaa''\<rparr>"
      and q = "QStr ''201''" and h = sampleHelpers and n = 201 and db = sampleStore]
    limit_maximum_and_default [where req = "emptyRequest\<lparr>limit_q := Some (QStr ''31'')\<rparr>"
      and q = "QStr ''31''" and h = sampleHelpers and n = 31 and db = sampleStore]
    limit_maximum_and_default [where req = emptyRequest
      and q = "QStr ''200''" and h = sampleHelpers and n = 200 and db = sampleStore and off = 0]
    limit_maximum_and_default [where req = "emptyRequest\<lparr>tx_id_p := ''0xaa''\<rparr>"
      and h = sampleHelpers and db = sampleStore and eo = 0]
  by (simp add: emptyRequest_def sample_query_number sample_paging sample_prefix nullish_def
      sample_store_lists sample_addr)

section \<open>The members of a list response\<close>

lemma memberNames_list:
  "memberNames (Respond n (listResponse lim off tot rs)) =
     [''limit'', ''offset'', ''total'', ''results'']"
  "memberNames (Respond n (rewardListResponse lim off rs)) = [''limit'', ''offset'', ''results'']"
  by (simp_all add: memberNames_def listResponse_def rewardListResponse_def)

lemma txListRoute_members:
  assumes "isResult (fst (txListRoute h db req))"
  shows "memberNames (fst (txListRoute h db req)) = [''limit'', ''offset'', ''total'', ''results'']"
  using assms
  by (auto simp: txListRoute_def isResult_def Let_def memberNames_list
      split: sum.splits prod.splits option.splits if_splits)

lemma mempoolRoute_members:
  assumes "isResult (fst (mempoolRoute h db req))"
  shows "memberNames (fst (mempoolRoute h db req)) = [''limit'', ''offset'', ''total'', ''results'']"
proof (cases "parseTxQueryLimit h (nullish (limit_q req) 96)")
  case (Inl e)
  with assms show ?thesis by (simp add: mempoolRoute_unpaged isResult_def)
next
  case lim: (Inr lim)
  show ?thesis
  proof (cases "parsePagingQueryInput h (nullish (offset_q req) 0)")
    case (Inl e)
    with lim assms show ?thesis by (simp add: mempoolRoute_unpaged isResult_def)
  next
    case (Inr off)
    with lim assms show ?thesis
      by (auto simp: mempoolRoute_paged isResult_def Let_def memberNames_list split: if_splits)
  qed
qed

lemma droppedRoute_members:
  assumes "isResult (fst (droppedRoute h db req))"
  shows "memberNames (fst (droppedRoute h db req)) = [''limit'', ''offset'', ''total'', ''results'']"
  using assms
  by (auto simp: droppedRoute_def isResult_def Let_def memberNames_list split: sum.splits)

lemma rewardsRoute_members:
  assumes "isResult (fst (rewardsRoute h db req))"
  shows "memberNames (fst (rewardsRoute h db req)) = [''limit'', ''offset'', ''results'']"
  using assms
  by (auto simp: rewardsRoute_def isResult_def Let_def memberNames_list split: sum.splits)

lemma rewardsAddressRoute_members:
  assumes "isResult (fst (rewardsAddressRoute h db req))"
  shows "memberNames (fst (rewardsAddressRoute h db req)) = [''limit'', ''offset'', ''results'']"
  using assms
  by (auto simp: rewardsAddressRoute_def isResult_def Let_def memberNames_list
      invalidAddressBody_def errorBody_def split: sum.splits if_splits)

lemma queryService_lists:
  "getTxList (queryService st) \<lparr>offset = off, limit = lim, txTypeFilter = flt\<rparr> =
     \<lparr>results = take lim (drop off (filter (typeMatches st flt) (listedTxs st))),
      total = length (filter (typeMatches st flt) (listedTxs st))\<rparr>"
  "getMempoolTxList (queryService st)
     \<lparr>offset = off, limit = lim, senderAddress = s, recipientAddress = r, address = a\<rparr> =
     \<lparr>results = take lim (drop off (filter (addressMatches st s r a) (pendingTxs st))),
      total = length (filter (addressMatches st s r a) (pendingTxs st))\<rparr>"
  "getDroppedTxs (queryService st) \<lparr>offset = off, limit = lim\<rparr> =
     \<lparr>results = take lim (drop off (droppedTxs st)), total = length (droppedTxs st)\<rparr>"
  by (simp_all add: queryService_def listRows_def)

lemma sample_txList:
  "txListRoute rowHelpers (queryService sampleRows)
     (emptyRequest\<lparr>limit_q := Some (QStr ''1''), type_q := Some (QStr ''0xa'')\<rparr>) =
     (Respond 200
        (JObj [(''limit'', JNum 1), (''offset'', JNum 0), (''total'', JNum 2),
               (''results'', JArr [JObj [(''tx_id'', JStr ''0xaa'')]])]),
      [GetTxList \<lparr>offset = 0, limit = 1, txTypeFilter = [''0xa'']\<rparr>,
       GetTxFromDataStore \<lparr>txId = ''0xaa'', eventLimit = None, eventOffset = None\<rparr>])"
  by (simp add: txListRoute_def emptyRequest_def nullish_def row_paging txTypeFilterOf_def
      row_helpers queryService_lists sample_rows Let_def listResponse_def)

text \<open>
  Claim C2, as stated, fails on the burnchain reward lists: the response to
  \<^verbatim>\<open>GET /rewards\<close> without parameters has the members \<open>limit\<close>, \<open>offset\<close> and
  \<open>results\<close>, and no \<open>total\<close>.
\<close>

theorem rewards_response_without_total:
  "memberNames (fst (rewardsRoute sampleHelpers sampleStore emptyRequest)) =
     [''limit'', ''offset'', ''results''] \<and>
   ''total'' \<notin> set (memberNames (fst (rewardsRoute sampleHelpers sampleStore emptyRequest)))"
  by (simp add: rewardsRoute_def emptyRequest_def nullish_def sample_paging Let_def
      memberNames_list)

text \<open>
  Claim C2, amended. The transaction list, the mempool list and the dropped list return an
  object of shape \<open>{limit, offset, total, results}\<close>, where \<open>limit\<close> and \<open>offset\<close> are
  the accepted values of the request, \<open>results\<close> is the requested page and \<open>total\<close> is the
  count of all rows matching the filter predicate, independent of the requested page window.
  The burnchain reward lists return an object of shape \<open>{limit, offset, results}\<close>, the
  results being the rows that \<open>getBurnchainRewards\<close> gives: their responses include no
  \<open>total\<close> field.
\<close>

theorem list_response_members:
  "(parseTxQueryLimit h (nullish (limit_q req) 96) = Inr lim \<and>
    parsePagingQueryInput h (nullish (offset_q req) 0) = Inr off \<longrightarrow>
      droppedRoute h (queryService st) req =
        (Respond 200
           (JObj [(''limit'', JNum (int lim)), (''offset'', JNum (int off)),
                  (''total'', JNum (int (length (droppedTxs st)))),
                  (''results'',
                   JArr (map (parseDbMempoolTx h) (take lim (drop off (droppedTxs st)))))]),
         [GetDroppedTxs \<lparr>offset = off, limit = lim\<rparr>]) \<and>
      (\<not> invalidAddr h (sender_address_q req) \<and> \<not> invalidAddr h (recipient_address_q req) \<and>
       \<not> invalidAddr h (address_q req) \<and>
       \<not> (truthy (address_q req) \<and>
            (truthy (recipient_address_q req) \<or> truthy (sender_address_q req))) \<and>
       matching = filter (addressMatches st (filterOf (sender_address_q req))
                           (filterOf (recipient_address_q req)) (filterOf (address_q req)))
                    (pendingTxs st) \<longrightarrow>
         fst (mempoolRoute h (queryService st) req) =
           Respond 200
             (JObj [(''limit'', JNum (int lim)), (''offset'', JNum (int off)),
                    (''total'', JNum (int (length matching))),
                    (''results'',
                     JArr (map (parseDbMempoolTx h) (take lim (drop off matching))))])) \<and>
      (txTypeFilterOf h (type_q req) = Inr flt \<and>
       isResult (fst (txListRoute h (queryService st) req)) \<longrightarrow>
         (\<exists>rs calls.
            mapSeriesTxQuery h (queryService st)
              (take lim (drop off (filter (typeMatches st flt) (listedTxs st)))) =
              (Inr rs, calls) \<and>
            fst (txListRoute h (queryService st) req) =
              Respond 200
                (JObj [(''limit'', JNum (int lim)), (''offset'', JNum (int off)),
                       (''total'',
                        JNum (int (length (filter (typeMatches st flt) (listedTxs st))))),
                       (''results'', JArr rs)]))))
   \<and>
   (isResult (fst (txListRoute h db req)) \<longrightarrow>
      memberNames (fst (txListRoute h db req)) = [''limit'', ''offset'', ''total'', ''results''])
   \<and>
   (isResult (fst (mempoolRoute h db req)) \<longrightarrow>
      memberNames (fst (mempoolRoute h db req)) = [''limit'', ''offset'', ''total'', ''results''])
   \<and>
   (isResult (fst (droppedRoute h db req)) \<longrightarrow>
      memberNames (fst (droppedRoute h db req)) = [''limit'', ''offset'', ''total'', ''results''])
   \<and>
   (parseBlockQueryLimit h (nullish (limit_q req) 20) = Inr blim \<and>
    parsePagingQueryInput h (nullish (offset_q req) 0) = Inr off \<longrightarrow>
      rewardsRoute h db req =
        (Respond 200
           (JObj [(''limit'', JNum (int blim)), (''offset'', JNum (int off)),
                  (''results'',
                   JArr (map rewardJson
                     (getBurnchainRewards db
                        \<lparr>offset = off, limit = blim, burnchainRecipient = None\<rparr>)))]),
         [GetBurnchainRewards \<lparr>offset = off, limit = blim, burnchainRecipient = None\<rparr>]) \<and>
      (burnchainAddressOf h (address_p req) = Some b \<and> b \<noteq> [] \<longrightarrow>
         rewardsAddressRoute h db req =
           (Respond 200
              (JObj [(''limit'', JNum (int blim)), (''offset'', JNum (int off)),
                     (''results'',
                      JArr (map rewardJson
                        (getBurnchainRewards db
                           \<lparr>offset = off, limit = blim, burnchainRecipient = Some b\<rparr>)))]),
            [GetBurnchainRewards \<lparr>offset = off, limit = blim, burnchainRecipient = Some b\<rparr>])))
   \<and>
   (isResult (fst (rewardsRoute h db req)) \<longrightarrow>
      memberNames (fst (rewardsRoute h db req)) = [''limit'', ''offset'', ''results''])
   \<and>
   (isResult (fst (rewardsAddressRoute h db req)) \<longrightarrow>
      memberNames (fst (rewardsAddressRoute h db req)) = [''limit'', ''offset'', ''results''])"
proof (intro conjI impI)
  assume a: "parseTxQueryLimit h (nullish (limit_q req) 96) = Inr lim \<and>
    parsePagingQueryInput h (nullish (offset_q req) 0) = Inr off"
  then have lim: "parseTxQueryLimit h (nullish (limit_q req) 96) = Inr lim"
    and off: "parsePagingQueryInput h (nullish (offset_q req) 0) = Inr off"
    by simp_all
  from droppedRoute_paged [OF lim off, of "queryService st"]
  show "droppedRoute h (queryService st) req =
        (Respond 200
           (JObj [(''limit'', JNum (int lim)), (''offset'', JNum (int off)),
                  (''total'', JNum (int (length (droppedTxs st)))),
                  (''results'',
                   JArr (map (parseDbMempoolTx h) (take lim (drop off (droppedTxs st)))))]),
         [GetDroppedTxs \<lparr>offset = off, limit = lim\<rparr>])"
    by (simp add: queryService_lists)
  {
    assume m: "\<not> invalidAddr h (sender_address_q req) \<and>
       \<not> invalidAddr h (recipient_address_q req) \<and> \<not> invalidAddr h (address_q req) \<and>
       \<not> (truthy (address_q req) \<and>
            (truthy (recipient_address_q req) \<or> truthy (sender_address_q req))) \<and>
       matching = filter (addressMatches st (filterOf (sender_address_q req))
                           (filterOf (recipient_address_q req)) (filterOf (address_q req)))
                    (pendingTxs st)"
    then have "mempoolRoute h (queryService st) req =
       (Respond 200
          (JObj [(''limit'', JNum (int lim)), (''offset'', JNum (int off)),
                 (''total'', JNum (int (total (getMempoolTxList (queryService st)
                    \<lparr>offset = off, limit = lim, senderAddress = filterOf (sender_address_q req),
                     recipientAddress = filterOf (recipient_address_q req),
                     address = filterOf (address_q req)\<rparr>)))),
                 (''results'',
                  JArr (map (parseDbMempoolTx h) (results (getMempoolTxList (queryService st)
                    \<lparr>offset = off, limit = lim, senderAddress = filterOf (sender_address_q req),
                     recipientAddress = filterOf (recipient_address_q req),
                     address = filterOf (address_q req)\<rparr>))))]),
        [GetMempoolTxList
           \<lparr>offset = off, limit = lim, senderAddress = filterOf (sender_address_q req),
            recipientAddress = filterOf (recipient_address_q req),
            address = filterOf (address_q req)\<rparr>])"
      by (intro mempoolRoute_accepted [OF lim off]) simp_all
    with m show "fst (mempoolRoute h (queryService st) req) =
           Respond 200
             (JObj [(''limit'', JNum (int lim)), (''offset'', JNum (int off)),
                    (''total'', JNum (int (length matching))),
                    (''results'',
                     JArr (map (parseDbMempoolTx h) (take lim (drop off matching))))])"
      by (simp add: queryService_lists)
  }
  {
    assume t: "txTypeFilterOf h (type_q req) = Inr flt \<and>
       isResult (fst (txListRoute h (queryService st) req))"
    then have f: "txTypeFilterOf h (type_q req) = Inr flt" by simp
    from t txListRoute_paged [OF lim off f, of "queryService st"]
    show "\<exists>rs calls.
            mapSeriesTxQuery h (queryService st)
              (take lim (drop off (filter (typeMatches st flt) (listedTxs st)))) =
              (Inr rs, calls) \<and>
            fst (txListRoute h (queryService st) req) =
              Respond 200
                (JObj [(''limit'', JNum (int lim)), (''offset'', JNum (int off)),
                       (''total'',
                        JNum (int (length (filter (typeMatches st flt) (listedTxs st))))),
                       (''results'', JArr rs)])"
      by (auto simp: queryService_lists)
  }
next
  assume "isResult (fst (txListRoute h db req))"
  then show "memberNames (fst (txListRoute h db req)) =
      [''limit'', ''offset'', ''total'', ''results'']"
    by (rule txListRoute_members)
next
  assume "isResult (fst (mempoolRoute h db req))"
  then show "memberNames (fst (mempoolRoute h db req)) =
      [''limit'', ''offset'', ''total'', ''results'']"
    by (rule mempoolRoute_members)
next
  assume "isResult (fst (droppedRoute h db req))"
  then show "memberNames (fst (droppedRoute h db req)) =
      [''limit'', ''offset'', ''total'', ''results'']"
    by (rule droppedRoute_members)
next
  assume a: "parseBlockQueryLimit h (nullish (limit_q req) 20) = Inr blim \<and>
    parsePagingQueryInput h (nullish (offset_q req) 0) = Inr off"
  then have blim: "parseBlockQueryLimit h (nullish (limit_q req) 20) = Inr blim"
    and off: "parsePagingQueryInput h (nullish (offset_q req) 0) = Inr off"
    by simp_all
  from rewardsRoute_paged [OF blim off]
  show "rewardsRoute h db req =
        (Respond 200
           (JObj [(''limit'', JNum (int blim)), (''offset'', JNum (int off)),
                  (''results'',
                   JArr (map rewardJson
                     (getBurnchainRewards db
                        \<lparr>offset = off, limit = blim, burnchainRecipient = None\<rparr>)))]),
         [GetBurnchainRewards \<lparr>offset = off, limit = blim, burnchainRecipient = None\<rparr>])" .
  {
    assume "burnchainAddressOf h (address_p req) = Some b \<and> b \<noteq> []"
    with rewardsAddressRoute_accepted [OF blim off, of b db]
    show "rewardsAddressRoute h db req =
           (Respond 200
              (JObj [(''limit'', JNum (int blim)), (''offset'', JNum (int off)),
                     (''results'',
                      JArr (map rewardJson
                        (getBurnchainRewards db
                           \<lparr>offset = off, limit = blim, burnchainRecipient = Some b\<rparr>)))]),
            [GetBurnchainRewards \<lparr>offset = off, limit = blim, burnchainRecipient = Some b\<rparr>])"
      by simp
  }
next
  assume "isResult (fst (rewardsRoute h db req))"
  then show "memberNames (fst (rewardsRoute h db req)) = [''limit'', ''offset'', ''results'']"
    by (rule rewardsRoute_members)
next
  assume "isResult (fst (rewardsAddressRoute h db req))"
  then show "memberNames (fst (rewardsAddressRoute h db req)) =
      [''limit'', ''offset'', ''results'']"
    by (rule rewardsAddressRoute_members)
qed

theorem list_response_members_witness:
  "fst (mempoolRoute rowHelpers (queryService sampleRows)
     (emptyRequest\<lparr>limit_q := Some (QStr ''1''), sender_address_q := Some ''SP1''\<rparr>)) =
     Respond 200
       (JObj [(''limit'', JNum 1), (''offset'', JNum 0), (''total'', JNum 2),
              (''results'', JArr [JObj [(''tx_id'', JStr ''0xcc'')]])]) \<and>
   droppedRoute rowHelpers (queryService sampleRows)
     (emptyRequest\<lparr>offset_q := Some (QStr ''5'')\<rparr>) =
     (Respond 200
        (JObj [(''limit'', JNum 96), (''offset'', JNum 5), (''total'', JNum 1),
               (''results'', JArr [])]),
      [GetDroppedTxs \<lparr>offset = 5, limit = 96\<rparr>]) \<and>
   fst (txListRoute rowHelpers (queryService sampleRows)
     (emptyRequest\<lparr>limit_q := Some (QStr ''1''), type_q := Some (QStr ''0xa'')\<rparr>)) =
     Respond 200
       (JObj [(''limit'', JNum 1), (''offset'', JNum 0), (''total'', JNum 2),
              (''results'', JArr [JObj [(''tx_id'', JStr ''0xaa'')]])]) \<and>
   rewardsRoute rowHelpers (queryService sampleRows) emptyRequest =
     (Respond 200
        (JObj [(''limit'', JNum 20), (''offset'', JNum 0),
               (''results'', JArr (map rewardJson (rewardRows sampleRows)))]),
      [GetBurnchainRewards \<lparr>offset = 0, limit = 20, burnchainRecipient = None\<rparr>]) \<and>
   memberNames (fst (rewardsRoute rowHelpers (queryService sampleRows) emptyRequest)) =
     [''limit'', ''offset'', ''results'']"
proof (intro conjI)
  show "fst (mempoolRoute rowHelpers (queryService sampleRows)
     (emptyRequest\<lparr>limit_q := Some (QStr ''1''), sender_address_q := Some ''SP1''\<rparr>)) =
     Respond 200
       (JObj [(''limit'', JNum 1), (''offset'', JNum 0), (''total'', JNum 2),
              (''results'', JArr [JObj [(''tx_id'', JStr ''0xcc'')]])])"
    using list_response_members [where h = rowHelpers and st = sampleRows
      and req = "emptyRequest\<lparr>limit_q := Some (QStr ''1''), sender_address_q := Some ''SP1''\<rparr>"
      and lim = 1 and off = 0 and flt = "[]" and db = "queryService sampleRows"
      and blim = 1 and b = "[]"
      and matching = "[(''0xcc'', ''SP1'', ''SP2''), (''0xde'', ''SP1'', ''SP3'')]"]
    by (simp add: emptyRequest_def nullish_def row_paging row_helpers sample_rows
        invalidAddr_def filterOf_def)
  show "droppedRoute rowHelpers (queryService sampleRows)
     (emptyRequest\<lparr>offset_q := Some (QStr ''5'')\<rparr>) =
     (Respond 200
        (JObj [(''limit'', JNum 96), (''offset'', JNum 5), (''total'', JNum 1),
               (''results'', JArr [])]),
      [GetDroppedTxs \<lparr>offset = 5, limit = 96\<rparr>])"
    using list_response_members [where h = rowHelpers and st = sampleRows
      and req = "emptyRequest\<lparr>offset_q := Some (QStr ''5'')\<rparr>"
      and lim = 96 and off = 5 and flt = "[]" and db = "queryService sampleRows"
      and blim = 20 and b = "[]" and matching = "[]"]
    by (simp add: emptyRequest_def nullish_def row_paging row_helpers sample_rows)
  have t: "isResult (fst (txListRoute rowHelpers (queryService sampleRows)
     (emptyRequest\<lparr>limit_q := Some (QStr ''1''), type_q := Some (QStr ''0xa'')\<rparr>)))"
    by (simp add: sample_txList isResult_def)
  have s: "filter (typeMatches sampleRows [''0xa'']) (listedTxs sampleRows) =
      [\<lparr>tx_id = ''0xaa''\<rparr>, \<lparr>tx_id = ''0xab''\<rparr>]"
    by (simp add: sample_rows)
  from t show "fst (txListRoute rowHelpers (queryService sampleRows)
     (emptyRequest\<lparr>limit_q := Some (QStr ''1''), type_q := Some (QStr ''0xa'')\<rparr>)) =
     Respond 200
       (JObj [(''limit'', JNum 1), (''offset'', JNum 0), (''total'', JNum 2),
              (''results'', JArr [JObj [(''tx_id'', JStr ''0xaa'')]])])"
    using list_response_members [where h = rowHelpers and st = sampleRows
      and req = "emptyRequest\<lparr>limit_q := Some (QStr ''1''), type_q := Some (QStr ''0xa'')\<rparr>"
      and lim = 1 and off = 0 and flt = "[''0xa'']" and db = "queryService sampleRows"
      and blim = 1 and b = "[]" and matching = "[]"]
    by (auto simp: emptyRequest_def nullish_def row_paging row_helpers txTypeFilterOf_def s)
  have r: "isResult (fst (rewardsRoute rowHelpers (queryService sampleRows) emptyRequest))"
    by (simp add: rewardsRoute_def emptyRequest_def nullish_def row_paging Let_def
        isResult_def)
  show "rewardsRoute rowHelpers (queryService sampleRows) emptyRequest =
     (Respond 200
        (JObj [(''limit'', JNum 20), (''offset'', JNum 0),
               (''results'', JArr (map rewardJson (rewardRows sampleRows)))]),
      [GetBurnchainRewards \<lparr>offset = 0, limit = 20, burnchainRecipient = None\<rparr>])"
    using list_response_members [where h = rowHelpers and st = sampleRows
      and req = emptyRequest
      and lim = 96 and off = 0 and flt = "[]" and db = "queryService sampleRows"
      and blim = 20 and b = "[]" and matching = "[]"]
    by (simp add: emptyRequest_def nullish_def row_paging sample_rewards_list)
  from r show "memberNames (fst (rewardsRoute rowHelpers (queryService sampleRows) emptyRequest)) =
     [''limit'', ''offset'', ''results'']"
    using list_response_members [where h = rowHelpers and st = sampleRows
      and req = emptyRequest
      and lim = 96 and off = 0 and flt = "[]" and db = "queryService sampleRows"
      and blim = 20 and b = "[]" and matching = "[]"]
    by simp
qed

section \<open>The routes only read\<close>

lemma read_not_write: "isReadCall c \<Longrightarrow> \<not> isWriteCall c"
  by (cases c) simp_all

lemma reads_no_writes: "list_all isReadCall cs \<Longrightarrow> list_all (\<lambda>c. \<not> isWriteCall c) cs"
  by (induction cs) (simp_all add: read_not_write)

lemma afterCalls_no_writes: "list_all (\<lambda>c. \<not> isWriteCall c) cs \<Longrightarrow> afterCalls w s cs = s"
  by (induction cs) (simp_all add: afterCalls_def afterCall_def)

lemma mapSeriesTxQuery_reads: "list_all isReadCall (snd (mapSeriesTxQuery h db txs))"
proof (induction txs)
  case Nil
  show ?case by simp
next
  case (Cons tx txs)
  obtain r calls where rest: "mapSeriesTxQuery h db txs = (r, calls)"
    by (cases "mapSeriesTxQuery h db txs")
  with Cons have "list_all isReadCall calls" by simp
  with rest show ?case
    by (cases r) (simp_all add: Let_def split: option.split)
qed

lemma txListRoute_reads: "list_all isReadCall (snd (txListRoute h db req))"
proof -
  have "list_all isReadCall calls"
    if "mapSeriesTxQuery h db txs = (r, calls)" for txs r calls
    using mapSeriesTxQuery_reads [of h db txs] that by simp
  then show ?thesis
    by (auto simp: txListRoute_def Let_def split: sum.split prod.split option.split)
qed

lemma mempoolRoute_reads: "list_all isReadCall (snd (mempoolRoute h db req))"
  by (simp add: mempoolRoute_def Let_def split: sum.split)

lemma droppedRoute_reads: "list_all isReadCall (snd (droppedRoute h db req))"
  by (simp add: droppedRoute_def Let_def split: sum.split)

lemma txRoute_reads: "list_all isReadCall (snd (txRoute h db req))"
  by (simp add: txRoute_def Let_def split: sum.split option.split)

lemma rewardsRoute_reads: "list_all isReadCall (snd (rewardsRoute h db req))"
  by (simp add: rewardsRoute_def Let_def split: sum.split)

lemma rewardsAddressRoute_reads: "list_all isReadCall (snd (rewardsAddressRoute h db req))"
  by (simp add: rewardsAddressRoute_def Let_def split: sum.split)

lemma rewardsTotalRoute_reads: "list_all isReadCall (snd (rewardsTotalRoute h db req))"
  by (simp add: rewardsTotalRoute_def Let_def split: option.split)

lemma streamRoute_calls:
  "snd (streamRoute h db req) = [] \<or> snd (streamRoute h db req) = [AddListener ''txUpdate'']"
  by (simp add: streamRoute_def Let_def)

lemma streamRoute_no_writes: "list_all (\<lambda>c. \<not> isWriteCall c) (snd (streamRoute h db req))"
  using streamRoute_calls [of h db req] by auto

text \<open>
  Claim C6. Whatever the request, and also when it is rejected, no handler of the two
  routers invokes a mutating operation of the store, so the stored chain state after the
  handler is the state before it, however the mutating operations behave. The handlers of
  the query routes (all but \<^verbatim>\<open>/stream\<close>) invoke nothing but the read operations
  \<open>getTxList\<close>, \<open>getMempoolTxList\<close>, \<open>getDroppedTxs\<close>, \<open>getTxFromDataStore\<close>,
  \<open>getBurnchainRewards\<close> and \<open>getBurnchainRewardsTotal\<close>. The subscription route
  \<^verbatim>\<open>/stream\<close> registers a listener for the store's \<open>txUpdate\<close> events, reads each
  announced transaction with \<open>getTxFromDataStore\<close>, and removes the listener when the
  connection closes.
\<close>

theorem query_routes_read_only:
  "(\<forall>(path, handler) \<in> set (createTxRouter h db @ createBurnchainRouter h db).
      afterCalls w s (snd (handler req)) = s \<and>
      list_all (\<lambda>c. \<not> isWriteCall c) (snd (handler req)) \<and>
      (path \<noteq> ''/stream'' \<longrightarrow> list_all isReadCall (snd (handler req))))
   \<and> list_all isReadCall (snd (dbTxUpdate h db txid))
   \<and> afterCalls w s (snd (dbTxUpdate h db txid)) = s
   \<and> afterCalls w s onClose = s"
proof -
  have reads: "list_all isReadCall (snd (handler req))"
    if "(path, handler) \<in> set (createTxRouter h db @ createBurnchainRouter h db)"
      and "path \<noteq> ''/stream''" for path handler
    using that
    by (auto simp: createTxRouter_def createBurnchainRouter_def txListRoute_reads
        mempoolRoute_reads droppedRoute_reads txRoute_reads rewardsRoute_reads
        rewardsAddressRoute_reads rewardsTotalRoute_reads)
  have quiet: "list_all (\<lambda>c. \<not> isWriteCall c) (snd (handler req))"
    if "(path, handler) \<in> set (createTxRouter h db @ createBurnchainRouter h db)"
    for path handler
  proof (cases "path = ''/stream''")
    case True
    with that have "handler = streamRoute h db"
      by (auto simp: createTxRouter_def createBurnchainRouter_def)
    then show ?thesis by (simp add: streamRoute_no_writes)
  next
    case False
    with that show ?thesis by (intro reads_no_writes reads)
  qed
  have upd: "list_all isReadCall (snd (dbTxUpdate h db txid))"
    by (simp add: dbTxUpdate_def Let_def)
  have closed: "afterCalls w s onClose = s"
    by (simp add: onClose_def afterCalls_def afterCall_def)
  have routes: "\<forall>(path, handler) \<in> set (createTxRouter h db @ createBurnchainRouter h db).
      afterCalls w s (snd (handler req)) = s \<and>
      list_all (\<lambda>c. \<not> isWriteCall c) (snd (handler req)) \<and>
      (path \<noteq> ''/stream'' \<longrightarrow> list_all isReadCall (snd (handler req)))"
  proof (intro ballI, clarify)
    fix path handler
    assume mem: "(path, handler) \<in> set (createTxRouter h db @ createBurnchainRouter h db)"
    from quiet [OF mem] reads [OF mem]
    show "afterCalls w s (snd (handler req)) = s \<and>
      list_all (\<lambda>c. \<not> isWriteCall c) (snd (handler req)) \<and>
      (path \<noteq> ''/stream'' \<longrightarrow> list_all isReadCall (snd (handler req)))"
      by (simp add: afterCalls_no_writes)
  qed
  have "afterCalls w s (snd (dbTxUpdate h db txid)) = s"
    using upd by (intro afterCalls_no_writes reads_no_writes)
  with routes upd closed show ?thesis
    by simp
qed

theorem query_routes_read_only_witness:
  "afterCalls (\<lambda>c n. Suc n) (0::nat)
     (snd (rewardsTotalRoute sampleHelpers sampleStore (emptyRequest\<lparr>address_p := ''1abc''\<rparr>))) = 0 \<and>
   list_all isReadCall
     (snd (mempoolRoute sampleHelpers sampleStore (emptyRequest\<lparr>address_q := Some ''zz''\<rparr>))) \<and>
   afterCalls (\<lambda>c n. Suc n) (0::nat) [AppendBlock ''0x01''] = 1"
  using
    query_routes_read_only [of sampleHelpers sampleStore "\<lambda>c n. Suc n" 0
      "emptyRequest\<lparr>address_p := ''1abc''\<rparr>" "''0xaa''"]
    query_routes_read_only [of sampleHelpers sampleStore "\<lambda>c n. Suc n" 0
      "emptyRequest\<lparr>address_q := Some ''zz''\<rparr>" "''0xaa''"]
  by (simp add: createTxRouter_def createBurnchainRouter_def afterCalls_def afterCall_def)

section \<open>Burnchain rewards of an address\<close>

text \<open>
  Claim C7. When the address is accepted, that is resolved to a non-empty burnchain
  recipient \<open>b\<close>, the total route asks the store once, for the total of \<open>b\<close>, and responds
  with HTTP 200 and the object \<open>{reward_recipient, reward_amount}\<close> built from the store's
  answer, the amount as a string. With the store operations of the Query Service,
  \<open>reward_recipient\<close> is \<open>b\<close>, the queried recipient, and \<open>reward_amount\<close> is the sum of
  the canonical rewards of \<open>b\<close>. The string of an amount is decimal: it consists of digits
  after an optional minus sign, and it reads back as the amount.
\<close>

theorem rewardsTotalRoute_response:
  assumes "burnchainAddressOf h (address_p req) = Some b" and "b \<noteq> []"
  shows "rewardsTotalRoute h db req =
     (Respond 200
        (JObj [(''reward_recipient'', JStr (reward_recipient (getBurnchainRewardsTotal db b))),
               (''reward_amount'',
                JStr (toString (reward_amount (getBurnchainRewardsTotal db b))))]),
      [GetBurnchainRewardsTotal b]) \<and>
   rewardsTotalRoute h (queryService st) req =
     (Respond 200
        (JObj [(''reward_recipient'', JStr b),
               (''reward_amount'',
                JStr (toString
                  (sum_list (map dbBurnchainReward.reward_amount
                     (filter (\<lambda>r. canonical r \<and> dbBurnchainReward.reward_recipient r = b)
                        (rewardRows st))))))]),
      [GetBurnchainRewardsTotal b]) \<and>
   readInt (toString amount) = amount \<and>
   list_all (\<lambda>c. c \<in> set ''-0123456789'') (toString amount)"
proof -
  have "getBurnchainRewardsTotal (queryService st) b =
      \<lparr>reward_recipient = b,
       reward_amount = sum_list (map dbBurnchainReward.reward_amount
          (filter (\<lambda>r. canonical r \<and> dbBurnchainReward.reward_recipient r = b) (rewardRows st)))\<rparr>"
    by (simp add: queryService_def)
  then have "rewardsTotalRoute h (queryService st) req =
     (Respond 200
        (JObj [(''reward_recipient'', JStr b),
               (''reward_amount'',
                JStr (toString
                  (sum_list (map dbBurnchainReward.reward_amount
                     (filter (\<lambda>r. canonical r \<and> dbBurnchainReward.reward_recipient r = b)
                        (rewardRows st))))))]),
      [GetBurnchainRewardsTotal b])"
    using rewardsTotalRoute_accepted [OF assms, of "queryService st"] by simp
  with rewardsTotalRoute_accepted [OF assms, of db] readInt_toString [of amount]
    toString_chars [of amount]
  show ?thesis
    by (intro conjI)
qed

theorem rewardsTotalRoute_response_witness:
  "burnchainAddressOf rowHelpers '' SPabc '' = Some ''1abc'' \<and>
   rewardsTotalRoute rowHelpers (queryService sampleRows)
     (emptyRequest\<lparr>address_p := '' SPabc ''\<rparr>) =
     (Respond 200 (JObj [(''reward_recipient'', JStr ''1abc''), (''reward_amount'', JStr ''1520'')]),
      [GetBurnchainRewardsTotal ''1abc''])"
proof -
  have b: "burnchainAddressOf rowHelpers '' SPabc '' = Some ''1abc''"
    by (simp add: burnchainAddressOf_def sample_trim sample_burnchain)
  from b rewardsTotalRoute_response
    [of rowHelpers "emptyRequest\<lparr>address_p := '' SPabc ''\<rparr>" "''1abc''"
      "queryService sampleRows" sampleRows 0]
  show ?thesis
    by (simp add: emptyRequest_def sample_rewards_total toString_1520)
qed

text \<open>
  Claim C9. Both address routes trim the path parameter and resolve it alike. Trimming takes
  a prefix and a suffix of white space off the parameter (tab, line feed, vertical tab, form
  feed, carriage return, space and no-break space) and leaves a string that neither starts
  nor ends with white space. A trimmed address that is a (non-empty) valid Bitcoin address
  is the recipient the store is asked about; otherwise an address that
  \<open>tryConvertC32ToBtc\<close> converts (to a non-empty string) is replaced by its conversion in
  the store query; any other address makes no store query and is answered with HTTP 400 and
  the error \<^verbatim>\<open>Address a is not a valid Bitcoin or STX address.\<close>, \<open>a\<close> being the trimmed
  address (on the list route, once \<open>limit\<close> and \<open>offset\<close> have been accepted).
\<close>

theorem burnchain_address_resolution:
  "(\<exists>pre post. address_p req = pre @ trim (address_p req) @ post \<and>
      list_all isWhiteSpace pre \<and> list_all isWhiteSpace post)
   \<and>
   (trim (address_p req) \<noteq> [] \<longrightarrow>
      \<not> isWhiteSpace (hd (trim (address_p req))) \<and>
      \<not> isWhiteSpace (last (trim (address_p req))))
   \<and>
   (isWhiteSpace c \<longleftrightarrow>
      c = CHR 0x09 \<or> c = CHR 0x0A \<or> c = CHR 0x0B \<or> c = CHR 0x0C \<or> c = CHR 0x0D \<or>
      c = CHR 0x20 \<or> c = CHR 0xA0)
   \<and>
   (isValidBitcoinAddress h (trim (address_p req)) \<and> trim (address_p req) \<noteq> [] \<longrightarrow>
      rewardsTotalRoute h db req =
        (Respond 200
           (JObj [(''reward_recipient'',
                   JStr (reward_recipient (getBurnchainRewardsTotal db (trim (address_p req))))),
                  (''reward_amount'',
                   JStr (toString
                     (reward_amount (getBurnchainRewardsTotal db (trim (address_p req))))))]),
         [GetBurnchainRewardsTotal (trim (address_p req))]) \<and>
      (parseBlockQueryLimit h (nullish (limit_q req) 20) = Inr lim \<and>
       parsePagingQueryInput h (nullish (offset_q req) 0) = Inr off \<longrightarrow>
         rewardsAddressRoute h db req =
           (Respond 200
              (JObj [(''limit'', JNum (int lim)), (''offset'', JNum (int off)),
                     (''results'',
                      JArr (map rewardJson
                        (getBurnchainRewards db
                           \<lparr>offset = off, limit = lim,
                            burnchainRecipient = Some (trim (address_p req))\<rparr>)))]),
            [GetBurnchainRewards
               \<lparr>offset = off, limit = lim,
                burnchainRecipient = Some (trim (address_p req))\<rparr>])))
   \<and>
   (\<not> isValidBitcoinAddress h (trim (address_p req)) \<and>
    tryConvertC32ToBtc h (trim (address_p req)) = Some b \<and> b \<noteq> [] \<longrightarrow>
      rewardsTotalRoute h db req =
        (Respond 200
           (JObj [(''reward_recipient'', JStr (reward_recipient (getBurnchainRewardsTotal db b))),
                  (''reward_amount'',
                   JStr (toString (reward_amount (getBurnchainRewardsTotal db b))))]),
         [GetBurnchainRewardsTotal b]) \<and>
      (parseBlockQueryLimit h (nullish (limit_q req) 20) = Inr lim \<and>
       parsePagingQueryInput h (nullish (offset_q req) 0) = Inr off \<longrightarrow>
         rewardsAddressRoute h db req =
           (Respond 200
              (JObj [(''limit'', JNum (int lim)), (''offset'', JNum (int off)),
                     (''results'',
                      JArr (map rewardJson
                        (getBurnchainRewards db
                           \<lparr>offset = off, limit = lim, burnchainRecipient = Some b\<rparr>)))]),
            [GetBurnchainRewards \<lparr>offset = off, limit = lim, burnchainRecipient = Some b\<rparr>])))
   \<and>
   (\<not> isValidBitcoinAddress h (trim (address_p req)) \<and>
    \<not> truthy (tryConvertC32ToBtc h (trim (address_p req))) \<longrightarrow>
      rewardsTotalRoute h db req =
        (Respond 400
           (JObj [(''error'', JStr (''Address '' @ trim (address_p req) @
                       '' is not a valid Bitcoin or STX address.''))]), []) \<and>
      snd (rewardsAddressRoute h db req) = [] \<and>
      (parseBlockQueryLimit h (nullish (limit_q req) 20) = Inr lim \<and>
       parsePagingQueryInput h (nullish (offset_q req) 0) = Inr off \<longrightarrow>
         rewardsAddressRoute h db req =
           (Respond 400
              (JObj [(''error'', JStr (''Address '' @ trim (address_p req) @
                          '' is not a valid Bitcoin or STX address.''))]), [])))"
proof -
  let ?q = "trim (address_p req)"
  have bitcoin: "rewardsTotalRoute h db req =
        (Respond 200
           (JObj [(''reward_recipient'', JStr (reward_recipient (getBurnchainRewardsTotal db ?q))),
                  (''reward_amount'',
                   JStr (toString (reward_amount (getBurnchainRewardsTotal db ?q))))]),
         [GetBurnchainRewardsTotal ?q]) \<and>
      (parseBlockQueryLimit h (nullish (limit_q req) 20) = Inr lim \<and>
       parsePagingQueryInput h (nullish (offset_q req) 0) = Inr off \<longrightarrow>
         rewardsAddressRoute h db req =
           (Respond 200
              (JObj [(''limit'', JNum (int lim)), (''offset'', JNum (int off)),
                     (''results'',
                      JArr (map rewardJson
                        (getBurnchainRewards db
                           \<lparr>offset = off, limit = lim, burnchainRecipient = Some ?q\<rparr>)))]),
            [GetBurnchainRewards \<lparr>offset = off, limit = lim, burnchainRecipient = Some ?q\<rparr>]))"
    if a: "isValidBitcoinAddress h ?q \<and> ?q \<noteq> []"
  proof -
    from a have b: "burnchainAddressOf h (address_p req) = Some ?q"
      by (simp add: burnchainAddressOf_bitcoin)
    with a show ?thesis
      by (simp add: rewardsTotalRoute_accepted rewardsAddressRoute_paged)
  qed
  have converted: "rewardsTotalRoute h db req =
        (Respond 200
           (JObj [(''reward_recipient'', JStr (reward_recipient (getBurnchainRewardsTotal db b))),
                  (''reward_amount'',
                   JStr (toString (reward_amount (getBurnchainRewardsTotal db b))))]),
         [GetBurnchainRewardsTotal b]) \<and>
      (parseBlockQueryLimit h (nullish (limit_q req) 20) = Inr lim \<and>
       parsePagingQueryInput h (nullish (offset_q req) 0) = Inr off \<longrightarrow>
         rewardsAddressRoute h db req =
           (Respond 200
              (JObj [(''limit'', JNum (int lim)), (''offset'', JNum (int off)),
                     (''results'',
                      JArr (map rewardJson
                        (getBurnchainRewards db
                           \<lparr>offset = off, limit = lim, burnchainRecipient = Some b\<rparr>)))]),
            [GetBurnchainRewards \<lparr>offset = off, limit = lim, burnchainRecipient = Some b\<rparr>]))"
    if a: "\<not> isValidBitcoinAddress h ?q \<and> tryConvertC32ToBtc h ?q = Some b \<and> b \<noteq> []"
  proof -
    from a have b: "burnchainAddressOf h (address_p req) = Some b"
      by (simp add: burnchainAddressOf_converted)
    with a show ?thesis
      by (simp add: rewardsTotalRoute_accepted rewardsAddressRoute_paged)
  qed
  have neither: "rewardsTotalRoute h db req =
        (Respond 400
           (JObj [(''error'', JStr (''Address '' @ ?q @
                       '' is not a valid Bitcoin or STX address.''))]), []) \<and>
      snd (rewardsAddressRoute h db req) = [] \<and>
      (parseBlockQueryLimit h (nullish (limit_q req) 20) = Inr lim \<and>
       parsePagingQueryInput h (nullish (offset_q req) 0) = Inr off \<longrightarrow>
         rewardsAddressRoute h db req =
           (Respond 400
              (JObj [(''error'', JStr (''Address '' @ ?q @
                          '' is not a valid Bitcoin or STX address.''))]), []))"
    if a: "\<not> isValidBitcoinAddress h ?q \<and> \<not> truthy (tryConvertC32ToBtc h ?q)"
  proof -
    from a have b: "burnchainAddressOf h (address_p req) = None"
      by (simp add: burnchainAddressOf_neither)
    then show ?thesis
      by (simp add: rewardsTotalRoute_rejected rewardsAddressRoute_rejected_calls
          rewardsAddressRoute_paged)
  qed
  from bitcoin converted neither trim_decomposition [of "address_p req"]
    trim_ends [of "address_p req"] isWhiteSpace_iff [of c]
  show ?thesis by blast
qed

theorem burnchain_address_resolution_witness:
  "rewardsAddressRoute sampleHelpers sampleStore
     (emptyRequest\<lparr>address_p := CHR 0xA0 # ''1abc'' @ [CHR 0x09]\<rparr>) =
     (Respond 200
        (JObj [(''limit'', JNum 20), (''offset'', JNum 0),
               (''results'', JArr [rewardJson sampleReward])]),
      [GetBurnchainRewards \<lparr>offset = 0, limit = 20, burnchainRecipient = Some ''1abc''\<rparr>]) \<and>
   snd (rewardsTotalRoute sampleHelpers sampleStore (emptyRequest\<lparr>address_p := '' SPabc ''\<rparr>)) =
     [GetBurnchainRewardsTotal ''1abc''] \<and>
   rewardsAddressRoute sampleHelpers sampleStore (emptyRequest\<lparr>address_p := '' x x ''\<rparr>) =
     (Respond 400
        (JObj [(''error'', JStr ''Address x x is not a valid Bitcoin or STX address.'')]), [])"
  using
    burnchain_address_resolution [of
      "emptyRequest\<lparr>address_p := CHR 0xA0 # ''1abc'' @ [CHR 0x09]\<rparr>" "CHR 0xA0"
      sampleHelpers sampleStore 20 0 "''1abc''"]
    burnchain_address_resolution [of "emptyRequest\<lparr>address_p := '' SPabc ''\<rparr>" "CHR 0xA0"
      sampleHelpers sampleStore 20 0 "''1abc''"]
    burnchain_address_resolution [of "emptyRequest\<lparr>address_p := '' x x ''\<rparr>" "CHR 0xA0"
      sampleHelpers sampleStore 20 0 "''1abc''"]
  by (simp add: emptyRequest_def nullish_def sample_paging sample_trim sample_burnchain
      sample_store_lists)

section \<open>Replayed blocks\<close>

lemma blockRows_restore: "blockRows (foldl restoreIfUnmined s xs) = blockRows s"
  by (induction xs arbitrary: s) (simp_all add: restoreIfUnmined_def)

lemma blockRows_prune: "blockRows (foldl pruneIfPending s xs) = blockRows s"
  by (induction xs arbitrary: s) (simp_all add: pruneIfPending_def)

lemma hasBlock_markCanonical: "hasBlock (markCanonical canon s) ih = hasBlock s ih"
  by (simp add: hasBlock_def markCanonical_def comp_def)

lemma appendBlock_stores:
  assumes "appendBlock resolve s b txs events = Inr s'"
  shows "hasBlock s' (index_block_hash b)"
proof (cases "hasBlock s (index_block_hash b)")
  case True
  with assms show ?thesis by (simp add: appendBlock_def)
next
  case False
  let ?ins = "s\<lparr>blockRows := blockRows s @ [b], txRows := txRows s @ txs,
                           eventRows := eventRows s @ events\<rparr>"
  from False assms obtain canon where c: "resolve ?ins b = Inr canon"
    by (cases "resolve ?ins b") (simp_all add: appendBlock_def Let_def)
  have "hasBlock (markCanonical canon ?ins) (index_block_hash b)"
    by (simp add: hasBlock_markCanonical) (simp add: hasBlock_def)
  then have "index_block_hash b \<in> set (map index_block_hash (blockRows (markCanonical canon ?ins)))"
    by (simp add: hasBlock_def)
  with False assms c show ?thesis
    by (auto simp: appendBlock_def Let_def hasBlock_def blockRows_prune blockRows_restore)
qed

text \<open>
  Claim C5. Appending a block whose index-hash is stored already returns the store as it
  is: the canonical flags of blocks and transactions, every balance and the mempool rows
  are those of before. And appending is idempotent on replay: in the store that a
  successful \<open>appendBlock\<close> returns, appending the same block again changes nothing.
\<close>

theorem appendBlock_replay:
  "(hasBlock s (index_block_hash b) \<longrightarrow>
      appendBlock resolve s b txs events = Inr s \<and>
      (case appendBlock resolve s b txs events of
         Inl e \<Rightarrow> False
       | Inr s' \<Rightarrow>
           map block_canonical (blockRows s') = map block_canonical (blockRows s) \<and>
           map tx_canonical (txRows s') = map tx_canonical (txRows s) \<and>
           balance s' a = balance s a \<and>
           mempoolRows s' = mempoolRows s))
   \<and>
   (appendBlock resolve s b txs events = Inr s' \<longrightarrow>
      appendBlock resolve s' b txs events = Inr s')"
proof (intro conjI impI)
  assume h: "hasBlock s (index_block_hash b)"
  then show r: "appendBlock resolve s b txs events = Inr s"
    by (simp add: appendBlock_def)
  then show "case appendBlock resolve s b txs events of
         Inl e \<Rightarrow> False
       | Inr s' \<Rightarrow>
           map block_canonical (blockRows s') = map block_canonical (blockRows s) \<and>
           map tx_canonical (txRows s') = map tx_canonical (txRows s) \<and>
           balance s' a = balance s a \<and>
           mempoolRows s' = mempoolRows s"
    by simp
next
  assume "appendBlock resolve s b txs events = Inr s'"
  then have "hasBlock s' (index_block_hash b)"
    by (rule appendBlock_stores)
  then show "appendBlock resolve s' b txs events = Inr s'"
    by (simp add: appendBlock_def)
qed

theorem appendBlock_replay_witness:
  "hasBlock chainAfter (index_block_hash sampleBlock) \<and>
   appendBlock sampleResolve chainAfter sampleBlock [sampleTx] [] = Inr chainAfter \<and>
   appendBlock sampleResolve chainBefore sampleBlock [sampleTx] [] = Inr chainAfter"
proof -
  have first: "appendBlock sampleResolve chainBefore sampleBlock [sampleTx] [] = Inr chainAfter"
    by (simp add: appendBlock_def hasBlock_def chainBefore_def chainAfter_def sampleBlock_def
        sampleTx_def sampleResolve_def markCanonical_def restoreIfUnmined_def
        pruneIfPending_def minedCanonically_def Let_def)
  have stored: "hasBlock chainAfter (index_block_hash sampleBlock)"
    by (simp add: hasBlock_def chainAfter_def sampleBlock_def)
  from first stored
    appendBlock_replay [of chainBefore sampleBlock sampleResolve "[sampleTx]" "[]" "''SP1''"
      chainAfter]
  show ?thesis by simp
qed

end
